theory Spec2Isabelle
  imports Complex_Main
begin

section \<open>JavaScript values\<close>

text \<open>
  The engine (\<^verbatim>\<open>lib/index.js\<close>, class \<^verbatim>\<open>ApiMocker\<close>) works on values produced by
  \<^verbatim>\<open>JSON.parse\<close>: rule files, error-scenario files, request bodies, query and header maps.
  A parsed object is an association list in key order (keys unique after parsing). A number
  is an integer of magnitude below \<open>2\<^sup>5\<^sup>3\<close>, where doubles are exact; a string is a list of
  code units below 256. Documents with other numbers or characters are outside the model.
\<close>

datatype json =
    JNull
  | JBool bool
  | JNum int
  | JStr string
  | JArr "json list"
  | JObj "(string \<times> json) list"

text \<open>
  Exceptions the engine can raise to its caller. \<open>Unsupported\<close> is not one of them: it marks
  the two places where a conversion is left out, the comparison in \<open>length_below_6\<close> and a
  status code of magnitude \<open>2\<^sup>5\<^sup>3\<close> or more in \<open>number_status\<close>.
\<close>

datatype js_error =
    TypeError
  | SyntaxError
  | IOError
  | Unsupported

text \<open>JavaScript truthiness (\<^verbatim>\<open>if (v)\<close>, \<^verbatim>\<open>v || d\<close>, \<^verbatim>\<open>a && b\<close>).\<close>

fun truthy :: "json \<Rightarrow> bool" where
  "truthy JNull = False"
| "truthy (JBool b) = b"
| "truthy (JNum n) = (n \<noteq> 0)"
| "truthy (JStr s) = (s \<noteq> [])"
| "truthy (JArr xs) = True"
| "truthy (JObj kvs) = True"

text \<open>Decimal rendering of an array index or a number (\<^verbatim>\<open>String(n)\<close>).\<close>

definition digit_char :: "nat \<Rightarrow> char" where
  "digit_char d = ''0123456789'' ! d"

fun show_nat :: "nat \<Rightarrow> string" where
  "show_nat n = (if n < 10 then [digit_char n] else show_nat (n div 10) @ [digit_char (n mod 10)])"

declare show_nat.simps [simp del]

definition show_int :: "int \<Rightarrow> string" where
  "show_int i = (if i < 0 then CHR ''-'' # show_nat (nat (- i)) else show_nat (nat i))"

text \<open>
  \<^verbatim>\<open>Object.entries(v)\<close>: the own enumerable string-keyed properties. An array lists its
  indices, a string its characters, other primitives nothing.
\<close>

fun js_entries :: "json \<Rightarrow> (string \<times> json) list" where
  "js_entries (JObj kvs) = kvs"
| "js_entries (JArr xs) = zip (map show_nat [0..<length xs]) xs"
| "js_entries (JStr s) = zip (map show_nat [0..<length s]) (map (\<lambda>c. JStr [c]) s)"
| "js_entries v = []"

text \<open>
  \<^verbatim>\<open>v[key]\<close> on a value other than \<^verbatim>\<open>null\<close>; \<open>None\<close> is \<^verbatim>\<open>undefined\<close>. Properties inherited
  from a prototype are functions or objects, never equal to a parsed value and never one of the
  keys the engine reads, so they are not listed.
\<close>

fun js_get :: "json \<Rightarrow> string \<Rightarrow> json option" where
  "js_get (JObj kvs) k = map_of kvs k"
| "js_get (JArr xs) k =
     (if k = ''length'' then Some (JNum (int (length xs)))
      else map_of (zip (map show_nat [0..<length xs]) xs) k)"
| "js_get (JStr s) k =
     (if k = ''length'' then Some (JNum (int (length s)))
      else map_of (zip (map show_nat [0..<length s]) (map (\<lambda>c. JStr [c]) s)) k)"
| "js_get v k = None"

text \<open>Truthiness of a property read, \<^verbatim>\<open>undefined\<close> being falsy.\<close>

definition truthy_opt :: "json option \<Rightarrow> bool" where
  "truthy_opt v = (case v of None \<Rightarrow> False | Some j \<Rightarrow> truthy j)"

text \<open>
  \<^verbatim>\<open>a === b\<close> where \<open>a\<close> is a property read and \<open>b\<close> a parsed value from another document:
  primitives compare by value, objects and arrays by identity (never equal here).
\<close>

fun strict_eq :: "json option \<Rightarrow> json \<Rightarrow> bool" where
  "strict_eq (Some JNull) JNull = True"
| "strict_eq (Some (JBool a)) (JBool b) = (a = b)"
| "strict_eq (Some (JNum a)) (JNum b) = (a = b)"
| "strict_eq (Some (JStr a)) (JStr b) = (a = b)"
| "strict_eq a b = False"

text \<open>\<^verbatim>\<open>delete v[key]\<close> for a key that is neither an index nor \<^verbatim>\<open>length\<close>.\<close>

fun js_delete :: "string \<Rightarrow> json \<Rightarrow> json" where
  "js_delete k (JObj kvs) = JObj (filter (\<lambda>kv. fst kv \<noteq> k) kvs)"
| "js_delete k v = v"

text \<open>
  Object spread \<^verbatim>\<open>{...a, ...b}\<close>: the entries of \<open>a\<close>, then those of \<open>b\<close>, a repeated key
  keeping its first position and taking the later value. (JavaScript lists integer-like keys
  first; the order of keys is not observable in the JSON sent.)
\<close>

fun obj_put :: "(string \<times> json) list \<Rightarrow> string \<times> json \<Rightarrow> (string \<times> json) list" where
  "obj_put [] kv = [kv]"
| "obj_put (e # es) kv = (if fst e = fst kv then kv # es else e # obj_put es kv)"

definition js_spread :: "json \<Rightarrow> json \<Rightarrow> json" where
  "js_spread a b = JObj (foldl obj_put (js_entries a) (js_entries b))"

section \<open>Strings and paths\<close>

definition starts_with :: "string \<Rightarrow> string \<Rightarrow> bool" where
  "starts_with s p = (take (length p) s = p)"

definition ends_with :: "string \<Rightarrow> string \<Rightarrow> bool" where
  "ends_with s p = (length p \<le> length s \<and> drop (length s - length p) s = p)"

text \<open>\<^verbatim>\<open>s.substring(a, b)\<close>: both indices clamped to the length, swapped when \<open>a > b\<close>.\<close>

definition js_substring :: "string \<Rightarrow> nat \<Rightarrow> nat \<Rightarrow> string" where
  "js_substring s a b =
     (let a' = min a (length s); b' = min b (length s)
      in take (max a' b' - min a' b') (drop (min a' b') s))"

text \<open>\<^verbatim>\<open>s.split(c)\<close> for a one-character separator.\<close>

fun split_on :: "char \<Rightarrow> string \<Rightarrow> string list" where
  "split_on c [] = [[]]"
| "split_on c (x # xs) =
     (if x = c then [] # split_on c xs
      else (case split_on c xs of [] \<Rightarrow> [[x]] | w # ws \<Rightarrow> (x # w) # ws))"

text \<open>\<^verbatim>\<open>s.split('/').filter(Boolean)\<close>: the non-empty segments of a path.\<close>

definition segments :: "string \<Rightarrow> string list" where
  "segments s = filter (\<lambda>p. p \<noteq> []) (split_on CHR ''/'' s)"

definition join_slash :: "string list \<Rightarrow> string" where
  "join_slash ps = (case ps of [] \<Rightarrow> [] | p # qs \<Rightarrow> foldl (\<lambda>acc q. acc @ ''/'' @ q) p qs)"

text \<open>
  Node's \<^verbatim>\<open>path\<close> module (POSIX). \<open>norm_parts\<close> is \<^verbatim>\<open>normalizeString\<close>: empty and \<^verbatim>\<open>.\<close>
  segments vanish, \<^verbatim>\<open>..\<close> removes the segment before it, and is kept only in a relative path
  that has nothing left to remove.
\<close>

fun norm_parts :: "bool \<Rightarrow> string list \<Rightarrow> string list \<Rightarrow> string list" where
  "norm_parts up res [] = res"
| "norm_parts up res (s # ss) =
     (if s = [] \<or> s = ''.'' then norm_parts up res ss
      else if s = ''..'' then
        (if res \<noteq> [] \<and> last res \<noteq> ''..'' then norm_parts up (butlast res) ss
         else if up then norm_parts up (res @ [''..'']) ss
         else norm_parts up res ss)
      else norm_parts up (res @ [s]) ss)"

definition path_normalize :: "string \<Rightarrow> string" where
  "path_normalize p =
     (if p = [] then ''.''
      else
        let isAbsolute = (hd p = CHR ''/'');
            trailing = (last p = CHR ''/'');
            body = join_slash (norm_parts (\<not> isAbsolute) [] (split_on CHR ''/'' p))
        in if body = [] then (if isAbsolute then ''/'' else if trailing then ''./'' else ''.'')
           else (if isAbsolute then ''/'' else []) @ body @ (if trailing then ''/'' else []))"

text \<open>\<^verbatim>\<open>path.join(a, b)\<close>: the non-empty arguments joined by a slash, then normalised.\<close>

definition path_join :: "string \<Rightarrow> string \<Rightarrow> string" where
  "path_join a b =
     (let joined = (if a = [] then b else if b = [] then a else a @ ''/'' @ b)
      in if joined = [] then ''.'' else path_normalize joined)"

text \<open>\<^verbatim>\<open>path.basename(p)\<close>: what follows the last slash, trailing slashes ignored.\<close>

definition path_basename :: "string \<Rightarrow> string" where
  "path_basename p =
     rev (takeWhile (\<lambda>c. c \<noteq> CHR ''/'') (dropWhile (\<lambda>c. c = CHR ''/'') (rev p)))"

text \<open>
  \<^verbatim>\<open>path.dirname(p)\<close>: scanning from the end down to index 1, trailing slashes are skipped,
  then the base name, and the path is cut at the slash before it.
\<close>

definition path_dirname :: "string \<Rightarrow> string" where
  "path_dirname p =
     (if p = [] then ''.''
      else
        let hasRoot = (hd p = CHR ''/'');
            r = dropWhile (\<lambda>c. c \<noteq> CHR ''/'') (dropWhile (\<lambda>c. c = CHR ''/'') (rev (tl p)))
        in if r = [] then (if hasRoot then ''/'' else ''.'')
           else if hasRoot \<and> tl r = [] then ''//''
           else hd p # rev (tl r))"

text \<open>
  \<^verbatim>\<open>path.resolve(p)\<close> as a list of segments. The working directory is the root of the
  modelled tree, so a relative path is read from there.
\<close>

definition resolve_segs :: "string \<Rightarrow> string list" where
  "resolve_segs p = norm_parts False [] (split_on CHR ''/'' p)"

fun drop_common :: "string list \<Rightarrow> string list \<Rightarrow> string list \<times> string list" where
  "drop_common (a # as) (b # bs) = (if a = b then drop_common as bs else (a # as, b # bs))"
| "drop_common as bs = (as, bs)"

definition path_relative :: "string \<Rightarrow> string \<Rightarrow> string" where
  "path_relative src dst =
     (case drop_common (resolve_segs src) (resolve_segs dst) of
        (f, t) \<Rightarrow> join_slash (replicate (length f) ''..'' @ t))"

section \<open>Path matcher\<close>

text \<open>
  \<^verbatim>\<open>parsePathParams\<close> (lines 16-46). \<open>params\<close> is the object under construction;
  assigning a string to its \<^verbatim>\<open>__proto__\<close> key is ignored by JavaScript and creates no entry.
\<close>

definition is_param :: "string \<Rightarrow> bool" where
  "is_param dirPart = (starts_with dirPart ''['' \<and> ends_with dirPart '']'')"

definition param_name :: "string \<Rightarrow> string" where
  "param_name dirPart = js_substring dirPart 1 (length dirPart - 1)"

definition params_set :: "(string \<rightharpoonup> string) \<Rightarrow> string \<Rightarrow> string \<Rightarrow> (string \<rightharpoonup> string)" where
  "params_set params k v = (if k = ''__proto__'' then params else params(k \<mapsto> v))"

text \<open>The loop over the segments; it is entered only with lists of equal length.\<close>

fun match_parts :: "string list \<Rightarrow> string list \<Rightarrow> (string \<rightharpoonup> string) \<Rightarrow> (string \<rightharpoonup> string) option" where
  "match_parts [] rs params = Some params"
| "match_parts (d # ds) [] params = None"
| "match_parts (d # ds) (r # rs) params =
     (if is_param d then match_parts ds rs (params_set params (param_name d) r)
      else if d \<noteq> r then None
      else match_parts ds rs params)"

definition parsePathParams :: "string \<Rightarrow> string \<Rightarrow> (string \<rightharpoonup> string) option" where
  "parsePathParams requestPath mockDirPath =
     (let dirParts = segments mockDirPath;
          requestParts = segments requestPath
      in if length dirParts \<noteq> length requestParts then None
         else match_parts dirParts requestParts Map.empty)"

section \<open>The rule tree on disk\<close>

text \<open>
  The file system is a tree; a directory lists its entries in the order \<^verbatim>\<open>readdirSync\<close>
  returns them. In a directory the names are distinct, non-empty, without a slash, and none is
  \<^verbatim>\<open>.\<close> or \<^verbatim>\<open>..\<close>. A file carries what \<^verbatim>\<open>JSON.parse\<close> makes of its text: \<open>None\<close> when
  the text is not valid JSON. Paths are resolved lexically, from the root of the tree.
\<close>

datatype node =
    File "json option"
  | Dir "(string \<times> node) list"

fun lookup_node :: "node \<Rightarrow> string list \<Rightarrow> node option" where
  "lookup_node n [] = Some n"
| "lookup_node (File c) (s # ss) = None"
| "lookup_node (Dir es) (s # ss) =
     (case map_of es s of None \<Rightarrow> None | Some n \<Rightarrow> lookup_node n ss)"

text \<open>\<^verbatim>\<open>fs.existsSync(p)\<close>; a path with a trailing slash names a directory only.\<close>

definition existsSync :: "node \<Rightarrow> string \<Rightarrow> bool" where
  "existsSync fs p =
     (p \<noteq> [] \<and>
      (case lookup_node fs (resolve_segs p) of
         None \<Rightarrow> False
       | Some (File c) \<Rightarrow> \<not> ends_with p ''/''
       | Some (Dir es) \<Rightarrow> True))"

text \<open>\<^verbatim>\<open>fs.readdirSync(p, { withFileTypes: true })\<close>; it throws on anything but a directory.\<close>

definition readdirSync :: "node \<Rightarrow> string \<Rightarrow> js_error + (string \<times> node) list" where
  "readdirSync fs p =
     (case lookup_node fs (resolve_segs p) of
        Some (Dir es) \<Rightarrow> Inr es
      | _ \<Rightarrow> Inl IOError)"

text \<open>\<^verbatim>\<open>JSON.parse(fs.readFileSync(p, 'utf8'))\<close>.\<close>

definition readJson :: "node \<Rightarrow> string \<Rightarrow> js_error + json" where
  "readJson fs p =
     (if ends_with p ''/'' then Inl IOError
      else case lookup_node fs (resolve_segs p) of
        Some (File (Some j)) \<Rightarrow> Inr j
      | Some (File None) \<Rightarrow> Inl SyntaxError
      | _ \<Rightarrow> Inl IOError)"

section \<open>The engine\<close>

text \<open>
  The fields of \<^verbatim>\<open>ApiMocker\<close> that decide a response. \<^verbatim>\<open>delay\<close> only postpones the
  response and \<^verbatim>\<open>logger\<close> only prints, so neither is kept. \<open>interpolate\<close> stands for
  \<^verbatim>\<open>JSON.parse(JSON.stringify(t).replace(/\{path\}/g, p).replace(/\{method\}/g, m))\<close>
  (lines 428-432), \<open>None\<close> when the substituted text no longer parses.
\<close>

record config =
  mockDirectory :: string
  errorRate :: rat
  interpolate :: "json \<Rightarrow> string \<Rightarrow> string \<Rightarrow> json option"

definition errorDirectory :: "config \<Rightarrow> string" where
  "errorDirectory cfg = path_join (mockDirectory cfg) ''_errors''"

subsection \<open>Rule lookup\<close>

text \<open>\<^verbatim>\<open>getAllMockPaths\<close> (lines 131-157): the inner \<^verbatim>\<open>walkDir\<close> over one listing.\<close>

fun walkDir :: "string \<Rightarrow> (string \<times> node) list \<Rightarrow> string list" where
  "walkDir currentPath [] = []"
| "walkDir currentPath ((name, File c) # files) =
     (if ends_with name ''.json'' then [path_join currentPath name] else [])
     @ walkDir currentPath files"
| "walkDir currentPath ((name, Dir es) # files) =
     (if name \<noteq> ''_errors'' \<and> name \<noteq> ''errors'' then walkDir (path_join currentPath name) es else [])
     @ walkDir currentPath files"

definition getAllMockPaths :: "config \<Rightarrow> node \<Rightarrow> js_error + string list" where
  "getAllMockPaths cfg fs =
     (if \<not> existsSync fs (mockDirectory cfg) then Inr []
      else case readdirSync fs (mockDirectory cfg) of
        Inl e \<Rightarrow> Inl e
      | Inr files \<Rightarrow> Inr (walkDir (mockDirectory cfg) files))"

text \<open>\<^verbatim>\<open>dirPath.replace(/\\/g, '/')\<close>.\<close>

definition backslash_to_slash :: "string \<Rightarrow> string" where
  "backslash_to_slash s = map (\<lambda>c. if c = CHR 0x5C then CHR ''/'' else c) s"

definition mockDirPath_of :: "config \<Rightarrow> string \<Rightarrow> string" where
  "mockDirPath_of cfg mockPath =
     (let relPath = path_relative (mockDirectory cfg) mockPath;
          dirPath = path_dirname relPath
      in if dirPath = ''.'' then ''/'' else ''/'' @ backslash_to_slash dirPath)"

text \<open>The method filter of \<^verbatim>\<open>findMockWithParams\<close> (lines 103-109): true when the file is skipped.\<close>

definition skipped :: "string \<Rightarrow> string \<Rightarrow> string \<Rightarrow> bool" where
  "skipped requestPath method mockPath =
     (let filename = path_basename mockPath
      in filename \<noteq> method @ ''.json'' \<and>
         filename \<noteq> ''index.json'' \<and>
         filename \<noteq> path_basename requestPath @ ''.json'')"

text \<open>The loop of \<^verbatim>\<open>findMockWithParams\<close> (lines 98-122).\<close>

fun first_match :: "config \<Rightarrow> string \<Rightarrow> string \<Rightarrow> string list \<Rightarrow> string option" where
  "first_match cfg requestPath method [] = None"
| "first_match cfg requestPath method (mockPath # mockPaths) =
     (if skipped requestPath method mockPath then first_match cfg requestPath method mockPaths
      else if parsePathParams requestPath (mockDirPath_of cfg mockPath) \<noteq> None then Some mockPath
      else first_match cfg requestPath method mockPaths)"

definition findMockWithParams :: "config \<Rightarrow> node \<Rightarrow> string \<Rightarrow> string \<Rightarrow> js_error + string option" where
  "findMockWithParams cfg fs requestPath method =
     (case getAllMockPaths cfg fs of
        Inl e \<Rightarrow> Inl e
      | Inr mockPaths \<Rightarrow> Inr (first_match cfg requestPath method mockPaths))"

text \<open>The two normalisations of the request path (lines 55-58 and 248-250).\<close>

definition trimmedPath_of :: "string \<Rightarrow> string" where
  "trimmedPath_of requestPath = (if ends_with requestPath ''/'' then butlast requestPath else requestPath)"

definition normalizedPath_of :: "string \<Rightarrow> string" where
  "normalizedPath_of requestPath =
     (let trimmedPath = trimmedPath_of requestPath
      in if starts_with trimmedPath ''/'' then trimmedPath else ''/'' @ trimmedPath)"

definition exactPath_of :: "config \<Rightarrow> string \<Rightarrow> string" where
  "exactPath_of cfg requestPath = path_join (mockDirectory cfg) (normalizedPath_of requestPath)"

text \<open>
  The direct lookup of \<^verbatim>\<open>findMock\<close> taken by itself (lines 60-76): the three files tried
  for the path, in the order of the source.
\<close>

definition directLookup :: "config \<Rightarrow> node \<Rightarrow> string \<Rightarrow> string \<Rightarrow> string option" where
  "directLookup cfg fs requestPath method =
     (let exactPath = exactPath_of cfg requestPath
      in if existsSync fs (path_join exactPath (method @ ''.json''))
           then Some (path_join exactPath (method @ ''.json''))
         else if existsSync fs (exactPath @ ''.json'')
           then Some (exactPath @ ''.json'')
         else if existsSync fs (path_join exactPath ''index.json'')
           then Some (path_join exactPath ''index.json'')
         else None)"

text \<open>\<^verbatim>\<open>findMock\<close> (lines 54-85).\<close>

definition findMock :: "config \<Rightarrow> node \<Rightarrow> string \<Rightarrow> string \<Rightarrow> js_error + string option" where
  "findMock cfg fs requestPath method =
     (let exactPath = exactPath_of cfg requestPath
      in if existsSync fs (path_join exactPath (method @ ''.json''))
           then Inr (Some (path_join exactPath (method @ ''.json'')))
         else if existsSync fs (exactPath @ ''.json'')
           then Inr (Some (exactPath @ ''.json''))
         else if existsSync fs (path_join exactPath ''index.json'')
           then Inr (Some (path_join exactPath ''index.json''))
         else if method = ''GET'' \<and> existsSync fs (path_join exactPath ''index.json'')
           then Inr (Some (path_join exactPath ''index.json''))
         else findMockWithParams cfg fs (normalizedPath_of requestPath) method)"

subsection \<open>Error scenarios\<close>

text \<open>
  \<^verbatim>\<open>evaluateConditions\<close> (lines 355-392). \<open>checks_hold\<close> is the loop over
  \<^verbatim>\<open>Object.entries\<close> of one declared map; \<open>part_ok\<close> is one of the three guarded blocks, which
  is skipped when the condition does not declare the map or the request does not carry it.
\<close>

definition checks_hold :: "json \<Rightarrow> json \<Rightarrow> bool" where
  "checks_hold declared given =
     list_all (\<lambda>kv. strict_eq (js_get given (fst kv)) (snd kv)) (js_entries declared)"

definition part_ok :: "json \<Rightarrow> string \<Rightarrow> json \<Rightarrow> bool" where
  "part_ok condition field given =
     (case js_get condition field of
        None \<Rightarrow> True
      | Some declared \<Rightarrow> if truthy declared \<and> truthy given then checks_hold declared given else True)"

definition condition_matches :: "json \<Rightarrow> json \<Rightarrow> json \<Rightarrow> json \<Rightarrow> bool" where
  "condition_matches condition body query headers =
     (part_ok condition ''body'' body \<and>
      part_ok condition ''query'' query \<and>
      part_ok condition ''headers'' headers)"

text \<open>The outer loop; reading a property of \<^verbatim>\<open>null\<close> throws.\<close>

fun eval_list :: "json list \<Rightarrow> json \<Rightarrow> json \<Rightarrow> json \<Rightarrow> js_error + bool" where
  "eval_list [] body query headers = Inr False"
| "eval_list (condition # conditions) body query headers =
     (if condition = JNull then Inl TypeError
      else if condition_matches condition body query headers then Inr True
      else eval_list conditions body query headers)"

text \<open>
  \<^verbatim>\<open>for (const condition of conditions)\<close>: an array yields its elements, a string its
  characters, and anything else is not iterable.
\<close>

definition evaluateConditions :: "json \<Rightarrow> json \<Rightarrow> json \<Rightarrow> json \<Rightarrow> js_error + bool" where
  "evaluateConditions conditions body query headers =
     (case conditions of
        JArr cs \<Rightarrow> eval_list cs body query headers
      | JStr s \<Rightarrow> eval_list (map (\<lambda>c. JStr [c]) s) body query headers
      | _ \<Rightarrow> Inl TypeError)"

text \<open>\<^verbatim>\<open>s.includes(p)\<close> on strings.\<close>

fun str_includes :: "string \<Rightarrow> string \<Rightarrow> bool" where
  "str_includes [] p = (p = [])"
| "str_includes (c # cs) p = (starts_with (c # cs) p \<or> str_includes cs p)"

text \<open>
  The built-in scenarios of \<^verbatim>\<open>errorApplies\<close> (lines 326-344); the result is the truthiness
  of the value the \<^verbatim>\<open>switch\<close> returns. Calling \<^verbatim>\<open>includes\<close> or \<^verbatim>\<open>startsWith\<close> on a value
  that has no such method throws. The comparison \<^verbatim>\<open>length < 6\<close> is modelled for a missing
  length, a number, \<^verbatim>\<open>null\<close> and booleans; for the \<^verbatim>\<open>length\<close> entry of an object that is a
  string, an array or an object, the model answers \<open>Unsupported\<close>.
\<close>

definition existing_email :: "json \<Rightarrow> js_error + bool" where
  "existing_email body =
     (if \<not> truthy body then Inr False
      else case js_get body ''email'' of
        None \<Rightarrow> Inr False
      | Some email \<Rightarrow>
          if \<not> truthy email then Inr False
          else (case email of
                  JStr s \<Rightarrow> Inr (str_includes s ''existing'')
                | JArr xs \<Rightarrow> Inr (JStr ''existing'' \<in> set xs)
                | _ \<Rightarrow> Inl TypeError))"

definition length_below_6 :: "json \<Rightarrow> js_error + bool" where
  "length_below_6 password =
     (case js_get password ''length'' of
        None \<Rightarrow> Inr False
      | Some (JNum n) \<Rightarrow> Inr (n < 6)
      | Some JNull \<Rightarrow> Inr True
      | Some (JBool b) \<Rightarrow> Inr True
      | Some _ \<Rightarrow> Inl Unsupported)"

definition invalid_input :: "json \<Rightarrow> js_error + bool" where
  "invalid_input body =
     (if \<not> truthy body then Inr False
      else if strict_eq (js_get body ''name'') (JStr []) then Inr True
      else if strict_eq (js_get body ''email'') (JStr []) then Inr True
      else case js_get body ''password'' of
        None \<Rightarrow> Inr False
      | Some password \<Rightarrow> if \<not> truthy password then Inr False else length_below_6 password)"

definition unauthorized :: "json \<Rightarrow> js_error + bool" where
  "unauthorized headers =
     (if headers = JNull then Inl TypeError
      else case js_get headers ''authorization'' of
        None \<Rightarrow> Inr True
      | Some authorization \<Rightarrow>
          if \<not> truthy authorization then Inr True
          else (case authorization of
                  JStr s \<Rightarrow> Inr (\<not> starts_with s ''Bearer '')
                | _ \<Rightarrow> Inl TypeError))"

definition forbidden :: "json \<Rightarrow> js_error + bool" where
  "forbidden headers =
     (if headers = JNull then Inl TypeError
      else Inr (strict_eq (js_get headers ''role'') (JStr ''guest'')))"

text \<open>\<^verbatim>\<open>errorApplies\<close> (lines 319-345).\<close>

definition errorApplies :: "json \<Rightarrow> string \<Rightarrow> json \<Rightarrow> json \<Rightarrow> json \<Rightarrow> js_error + bool" where
  "errorApplies errorData scenario body query headers =
     (if errorData = JNull then Inl TypeError
      else if truthy_opt (js_get errorData ''_conditions'') then
        (case js_get errorData ''_conditions'' of
           Some conditions \<Rightarrow> evaluateConditions conditions body query headers
         | None \<Rightarrow> Inr False)
      else if scenario = ''existing_email'' then existing_email body
      else if scenario = ''invalid_input'' then invalid_input body
      else if scenario = ''unauthorized'' then unauthorized headers
      else if scenario = ''forbidden'' then forbidden headers
      else Inr False)"

text \<open>
  The response triple. Its status code is whatever JavaScript value the engine put there: a
  parsed value, or an object found on \<^verbatim>\<open>Object.prototype\<close>.
\<close>

datatype native = ObjectConstructor | ObjectPrototype

datatype jsval = JV json | Native native

record response =
  resp_body :: json
  resp_statusCode :: jsval
  resp_headers :: json

text \<open>\<^verbatim>\<open>v || d\<close> on a property read.\<close>

definition or_default :: "json option \<Rightarrow> json \<Rightarrow> json" where
  "or_default v d = (case v of None \<Rightarrow> d | Some j \<Rightarrow> if truthy j then j else d)"

text \<open>\<^verbatim>\<open>checkForSpecificError\<close>, lines 255-266: the descent to the directory of the path.\<close>

definition is_dynamic :: "string \<Rightarrow> bool" where
  "is_dynamic f = (starts_with f ''['' \<and> ends_with f '']'')"

fun descend :: "node \<Rightarrow> string \<Rightarrow> string list \<Rightarrow> js_error + string" where
  "descend fs errorDir [] = Inr errorDir"
| "descend fs errorDir (part # pathParts) =
     (case (if existsSync fs errorDir then readdirSync fs errorDir else Inr []) of
        Inl e \<Rightarrow> Inl e
      | Inr files \<Rightarrow>
          (case find is_dynamic (map fst files) of
             Some dynamicFolder \<Rightarrow> descend fs (path_join errorDir dynamicFolder) pathParts
           | None \<Rightarrow> descend fs (path_join errorDir part) pathParts))"

text \<open>Lines 291-303: the response of a scenario that applies.\<close>

definition scenario_response :: "json \<Rightarrow> response" where
  "scenario_response errorData =
     \<lparr> resp_body = js_delete ''_conditions'' (js_delete ''_headers'' (js_delete ''_statusCode'' errorData)),
       resp_statusCode = JV (or_default (js_get errorData ''_statusCode'') (JNum 400)),
       resp_headers = or_default (js_get errorData ''_headers'') (JObj []) \<rparr>"

text \<open>Lines 278-305: the loop over the scenario files of the method.\<close>

fun try_scenarios ::
  "node \<Rightarrow> string \<Rightarrow> string \<Rightarrow> json \<Rightarrow> json \<Rightarrow> json \<Rightarrow> string list \<Rightarrow> js_error + response option" where
  "try_scenarios fs errorsDir method body query headers [] = Inr None"
| "try_scenarios fs errorsDir method body query headers (errorFile # errorFiles) =
     (let scenario = js_substring errorFile (length method + 1) (length errorFile - 5);
          errorPath = path_join errorsDir errorFile
      in case readJson fs errorPath of
           Inl e \<Rightarrow> Inl e
         | Inr errorData \<Rightarrow>
             (case errorApplies errorData scenario body query headers of
                Inl e \<Rightarrow> Inl e
              | Inr True \<Rightarrow> Inr (Some (scenario_response errorData))
              | Inr False \<Rightarrow> try_scenarios fs errorsDir method body query headers errorFiles))"

text \<open>\<^verbatim>\<open>checkForSpecificError\<close> (lines 246-308).\<close>

definition checkForSpecificError ::
  "config \<Rightarrow> node \<Rightarrow> string \<Rightarrow> string \<Rightarrow> json \<Rightarrow> json \<Rightarrow> json \<Rightarrow> js_error + response option" where
  "checkForSpecificError cfg fs requestPath method body query headers =
     (let pathParts = segments (normalizedPath_of requestPath)
      in case descend fs (path_normalize (mockDirectory cfg)) pathParts of
           Inl e \<Rightarrow> Inl e
         | Inr errorDir \<Rightarrow>
             (let errorsDir = path_join errorDir ''errors''
              in if \<not> existsSync fs errorsDir then Inr None
                 else case readdirSync fs errorsDir of
                   Inl e \<Rightarrow> Inl e
                 | Inr entries \<Rightarrow>
                     try_scenarios fs errorsDir method body query headers
                       (filter (\<lambda>f. starts_with f (method @ ''_'') \<and> ends_with f ''.json'') (map fst entries))))"

subsection \<open>Synthesised errors\<close>

text \<open>
  The error code handed to \<^verbatim>\<open>getErrorResponse\<close> is a number or a string (its documented
  type). \<^verbatim>\<open>parseInt(s, 10)\<close> skips leading white space (among the code units below 256:
  tab, line feed, vertical tab, form feed, carriage return, space and no-break space), reads an
  optional sign and the longest run of decimal digits; \<open>None\<close> is \<^verbatim>\<open>NaN\<close>. The result is the
  integer the digits denote; JavaScript rounds it to a double, which changes it from \<open>2\<^sup>5\<^sup>3\<close>
  on, and \<open>number_status\<close> below stops there.
\<close>

datatype errorCode = ErrNum int | ErrStr string

definition is_ws :: "char \<Rightarrow> bool" where
  "is_ws c = (c \<in> set [CHR 0x09, CHR 0x0A, CHR 0x0B, CHR 0x0C, CHR 0x0D, CHR '' '', CHR 0xA0])"

definition digit_val :: "char \<Rightarrow> nat option" where
  "digit_val c = map_of (zip ''0123456789'' [0, 1, 2, 3, 4, 5, 6, 7, 8, 9]) c"

definition decimal :: "string \<Rightarrow> nat" where
  "decimal ds = foldl (\<lambda>acc c. 10 * acc + (case digit_val c of Some d \<Rightarrow> d | None \<Rightarrow> 0)) 0 ds"

definition parseInt :: "string \<Rightarrow> int option" where
  "parseInt s =
     (let t = dropWhile is_ws s;
          negative = (t \<noteq> [] \<and> hd t = CHR ''-'');
          u = (if t \<noteq> [] \<and> (hd t = CHR ''-'' \<or> hd t = CHR ''+'') then tl t else t);
          ds = takeWhile (\<lambda>c. digit_val c \<noteq> None) u
      in if ds = [] then None
         else Some (if negative then - int (decimal ds) else int (decimal ds)))"

text \<open>
  \<^verbatim>\<open>toLowerCase\<close> on code units below 256: the letters A to Z, and the accented capitals
  \<^verbatim>\<open>0xC0\<close> to \<^verbatim>\<open>0xDE\<close> except the multiplication sign \<^verbatim>\<open>0xD7\<close>, move up by 32.
\<close>

definition upper_letters :: "char list" where
  "upper_letters =
     ''ABCDEFGHIJKLMNOPQRSTUVWXYZ'' @
     [CHR 0xC0, CHR 0xC1, CHR 0xC2, CHR 0xC3, CHR 0xC4, CHR 0xC5, CHR 0xC6, CHR 0xC7,
      CHR 0xC8, CHR 0xC9, CHR 0xCA, CHR 0xCB, CHR 0xCC, CHR 0xCD, CHR 0xCE, CHR 0xCF,
      CHR 0xD0, CHR 0xD1, CHR 0xD2, CHR 0xD3, CHR 0xD4, CHR 0xD5, CHR 0xD6,
      CHR 0xD8, CHR 0xD9, CHR 0xDA, CHR 0xDB, CHR 0xDC, CHR 0xDD, CHR 0xDE]"

definition lower_letters :: "char list" where
  "lower_letters =
     ''abcdefghijklmnopqrstuvwxyz'' @
     [CHR 0xE0, CHR 0xE1, CHR 0xE2, CHR 0xE3, CHR 0xE4, CHR 0xE5, CHR 0xE6, CHR 0xE7,
      CHR 0xE8, CHR 0xE9, CHR 0xEA, CHR 0xEB, CHR 0xEC, CHR 0xED, CHR 0xEE, CHR 0xEF,
      CHR 0xF0, CHR 0xF1, CHR 0xF2, CHR 0xF3, CHR 0xF4, CHR 0xF5, CHR 0xF6,
      CHR 0xF8, CHR 0xF9, CHR 0xFA, CHR 0xFB, CHR 0xFC, CHR 0xFD, CHR 0xFE]"

definition lower_char :: "char \<Rightarrow> char" where
  "lower_char c = (case map_of (zip upper_letters lower_letters) c of Some l \<Rightarrow> l | None \<Rightarrow> c)"

definition toLowerCase :: "string \<Rightarrow> string" where
  "toLowerCase s = map lower_char s"

text \<open>
  The status code computed by \<^verbatim>\<open>getErrorResponse\<close>: a number, or what the lookup
  \<^verbatim>\<open>errorMap[key]\<close> finds on the prototype of the object literal. Of the property names of
  \<^verbatim>\<open>Object.prototype\<close> only \<^verbatim>\<open>constructor\<close> and \<^verbatim>\<open>__proto__\<close> are lower-case, so only these
  two can be hit by a lower-cased key.
\<close>

datatype status = Code int | Inherited native

definition errorMap :: "(string \<times> int) list" where
  "errorMap =
     [(''badrequest'', 400), (''unauthorized'', 401), (''forbidden'', 403),
      (''notfound'', 404), (''conflict'', 409), (''servererror'', 500)]"

definition errorMap_get :: "string \<Rightarrow> status option" where
  "errorMap_get key =
     (case map_of errorMap key of
        Some n \<Rightarrow> Some (Code n)
      | None \<Rightarrow>
          if key = ''constructor'' then Some (Inherited ObjectConstructor)
          else if key = ''__proto__'' then Some (Inherited ObjectPrototype)
          else None)"

text \<open>
  A number as a status code. From \<open>2\<^sup>5\<^sup>3\<close> on, the rounding of \<^verbatim>\<open>parseInt\<close> and the digits
  that \<^verbatim>\<open>${statusCode}\<close> prints are left out: the model answers \<open>Unsupported\<close>.
\<close>

definition number_status :: "int \<Rightarrow> js_error + status" where
  "number_status n = (if - (2 ^ 53) < n \<and> n < 2 ^ 53 then Inr (Code n) else Inl Unsupported)"

text \<open>Lines 412-415.\<close>

definition resolve_status :: "errorCode \<Rightarrow> js_error + status" where
  "resolve_status errorCode =
     (case errorCode of
        ErrNum n \<Rightarrow> number_status n
      | ErrStr s \<Rightarrow>
          (case parseInt s of
             Some n \<Rightarrow> number_status n
           | None \<Rightarrow> Inr (case errorMap_get (toLowerCase s) of Some v \<Rightarrow> v | None \<Rightarrow> Code 500)))"

text \<open>The text of \<^verbatim>\<open>${statusCode}\<close>.\<close>

fun status_string :: "status \<Rightarrow> string" where
  "status_string (Code n) = show_int n"
| "status_string (Inherited ObjectConstructor) = ''function Object() { [native code] }''"
| "status_string (Inherited ObjectPrototype) = ''[object Object]''"

fun status_value :: "status \<Rightarrow> jsval" where
  "status_value (Code n) = JV (JNum n)"
| "status_value (Inherited x) = Native x"

text \<open>The built-in bodies (lines 450-459).\<close>

definition error_body :: "string \<Rightarrow> string \<Rightarrow> json" where
  "error_body name message = JObj [(''error'', JStr name), (''message'', JStr message)]"

definition defaultErrors :: "string \<Rightarrow> string \<Rightarrow> (int \<times> json) list" where
  "defaultErrors requestPath method =
     [(400, error_body ''Bad Request'' ''The request was malformed or contains invalid parameters.''),
      (401, error_body ''Unauthorized'' ''Authentication is required to access this resource.''),
      (403, error_body ''Forbidden'' ''You do not have permission to access this resource.''),
      (404, error_body ''Not Found'' (''Resource at '' @ method @ '' '' @ requestPath @ '' was not found.'')),
      (409, error_body ''Conflict'' ''The request conflicts with the current state of the server.''),
      (429, error_body ''Too Many Requests'' ''Rate limit exceeded. Please try again later.''),
      (500, error_body ''Internal Server Error'' ''An unexpected error occurred while processing the request.''),
      (503, error_body ''Service Unavailable'' ''The service is currently unavailable. Please try again later.'')]"

definition default_500 :: json where
  "default_500 = error_body ''Internal Server Error'' ''An unexpected error occurred while processing the request.''"

text \<open>Lines 461-465: \<^verbatim>\<open>defaultErrors[statusCode] || defaultErrors[500]\<close>.\<close>

definition default_response :: "status \<Rightarrow> string \<Rightarrow> string \<Rightarrow> response" where
  "default_response statusCode requestPath method =
     \<lparr> resp_body =
         (case statusCode of
            Code n \<Rightarrow> (case map_of (defaultErrors requestPath method) n of Some b \<Rightarrow> b | None \<Rightarrow> default_500)
          | Inherited x \<Rightarrow> default_500),
       resp_statusCode = status_value statusCode,
       resp_headers = JObj [] \<rparr>"

text \<open>
  \<^verbatim>\<open>getErrorResponse\<close> (lines 401-466); \<open>template_response\<close> is lines 419-465, once the
  status code is known. Everything that throws while the template file is used is caught
  (line 444) and leads to the built-in body; reading \<^verbatim>\<open>_headers\<close> of a template that is
  \<^verbatim>\<open>null\<close> is such a throw.
\<close>

definition template_response :: "config \<Rightarrow> node \<Rightarrow> status \<Rightarrow> string \<Rightarrow> string \<Rightarrow> response" where
  "template_response cfg fs statusCode requestPath method =
     (let errorFilePath = path_join (errorDirectory cfg) (status_string statusCode @ ''.json'')
      in if existsSync fs errorFilePath then
           (case readJson fs errorFilePath of
              Inl e \<Rightarrow> default_response statusCode requestPath method
            | Inr errorTemplate \<Rightarrow>
                (case interpolate cfg errorTemplate requestPath method of
                   None \<Rightarrow> default_response statusCode requestPath method
                 | Some errorBody \<Rightarrow>
                     if errorTemplate = JNull then default_response statusCode requestPath method
                     else \<lparr> resp_body = errorBody,
                            resp_statusCode = status_value statusCode,
                            resp_headers = or_default (js_get errorTemplate ''_headers'') (JObj []) \<rparr>))
         else default_response statusCode requestPath method)"

definition getErrorResponse :: "config \<Rightarrow> node \<Rightarrow> errorCode \<Rightarrow> string \<Rightarrow> string \<Rightarrow> js_error + response" where
  "getErrorResponse cfg fs errorCode requestPath method =
     (case resolve_status errorCode of
        Inl e \<Rightarrow> Inl e
      | Inr statusCode \<Rightarrow> Inr (template_response cfg fs statusCode requestPath method))"

subsection \<open>Resolution\<close>

text \<open>
  Lines 199-230, the body of the \<^verbatim>\<open>try\<close> block of \<^verbatim>\<open>getMockResponse\<close> once the rule
  file is parsed. \<open>apply_body\<close> is lines 207-218.
\<close>

definition apply_body :: "json \<Rightarrow> string \<Rightarrow> json \<Rightarrow> json" where
  "apply_body response method requestBody =
     (if truthy requestBody \<and> (method = ''POST'' \<or> method = ''PUT'') then
        (if js_get response ''_echo'' = Some (JBool True)
           then js_spread (js_delete ''_echo'' response) requestBody
         else if js_get response ''_merge'' = Some (JBool True)
           then js_spread (js_delete ''_merge'' response) requestBody
         else response)
      else response)"

definition buildResponse :: "json \<Rightarrow> string \<Rightarrow> json \<Rightarrow> js_error + response" where
  "buildResponse response method requestBody =
     (if response = JNull then Inl TypeError
      else
        let statusCode = or_default (js_get response ''_statusCode'') (JNum 200);
            headers = or_default (js_get response ''_headers'') (JObj []);
            stripped = js_delete ''_headers'' (js_delete ''_statusCode'' response)
        in Inr \<lparr> resp_body = apply_body stripped method requestBody,
                 resp_statusCode = JV statusCode,
                 resp_headers = headers \<rparr>)"

text \<open>Lines 194-234: the \<^verbatim>\<open>try\<close> block and its \<^verbatim>\<open>catch\<close>.\<close>

definition loadMock :: "config \<Rightarrow> node \<Rightarrow> string \<Rightarrow> string \<Rightarrow> string \<Rightarrow> json \<Rightarrow> js_error + response" where
  "loadMock cfg fs mockPath requestPath method requestBody =
     (case readJson fs mockPath of
        Inl e \<Rightarrow> getErrorResponse cfg fs (ErrNum 500) requestPath method
      | Inr response \<Rightarrow>
          (case buildResponse response method requestBody of
             Inl e \<Rightarrow> getErrorResponse cfg fs (ErrNum 500) requestPath method
           | Inr r \<Rightarrow> Inr r))"

text \<open>\<^verbatim>\<open>if (forceError)\<close>: the argument is given and truthy.\<close>

definition forced :: "errorCode option \<Rightarrow> errorCode option" where
  "forced forceError =
     (case forceError of
        None \<Rightarrow> None
      | Some (ErrNum n) \<Rightarrow> if n = 0 then None else Some (ErrNum n)
      | Some (ErrStr s) \<Rightarrow> if s = [] then None else Some (ErrStr s))"

definition errorCodes :: "int list" where
  "errorCodes = [400, 401, 403, 404, 500]"

text \<open>
  Line 183, \<^verbatim>\<open>Math.floor(Math.random() * errorCodes.length)\<close>: the product of the draw and 5
  is the double nearest to the exact product, a tie going to the even neighbour. \<open>ulp y\<close> is
  the distance between neighbouring doubles around \<open>y\<close>, for \<open>0 \<le> y < 8\<close>: \<open>2\<^sup>e\<^sup>-\<^sup>5\<^sup>2\<close> when
  \<open>2\<^sup>e \<le> y < 2\<^sup>e\<^sup>+\<^sup>1\<close>, and \<open>2\<^sup>-\<^sup>1\<^sup>0\<^sup>7\<^sup>4\<close> from the exponent \<open>-1022\<close> down.
\<close>

definition round_half_even :: "rat \<Rightarrow> int" where
  "round_half_even q =
     (let f = \<lfloor>q\<rfloor>; d = q - of_int f
      in if d < 1 / 2 then f else if 1 / 2 < d then f + 1 else if even f then f else f + 1)"

function ulp_search :: "nat \<Rightarrow> rat \<Rightarrow> rat" where
  "ulp_search k y =
     (if 1022 \<le> k \<or> 1 / 2 ^ k \<le> y then 1 / 2 ^ (k + 52) else ulp_search (Suc k) y)"
  by pat_completeness auto
termination
  by (relation "measure (\<lambda>(k, y). 1022 - k)") auto

declare ulp_search.simps [simp del]

definition ulp :: "rat \<Rightarrow> rat" where
  "ulp y =
     (if 4 \<le> y then 1 / 2 ^ 50
      else if 2 \<le> y then 1 / 2 ^ 51
      else if 1 \<le> y then 1 / 2 ^ 52
      else ulp_search 1 y)"

definition to_double :: "rat \<Rightarrow> rat" where
  "to_double y = of_int (round_half_even (y / ulp y)) * ulp y"

definition random_index :: "rat \<Rightarrow> nat" where
  "random_index draw = nat \<lfloor>to_double (draw * 5)\<rfloor>"

text \<open>
  \<^verbatim>\<open>getMockResponse\<close> (lines 168-235). \<open>rateDraw\<close> and \<open>codeDraw\<close> are the values of the two calls
  of \<^verbatim>\<open>Math.random()\<close> (line 181, made only when the rate is positive, and line 183), each
  a double in \<open>[0, 1)\<close>. An index outside the list reads \<^verbatim>\<open>undefined\<close>, on which
  \<^verbatim>\<open>getErrorResponse\<close> throws.
\<close>

definition getMockResponse ::
  "config \<Rightarrow> node \<Rightarrow> rat \<Rightarrow> rat \<Rightarrow> string \<Rightarrow> string \<Rightarrow> json \<Rightarrow> json \<Rightarrow> json \<Rightarrow> errorCode option
     \<Rightarrow> js_error + response" where
  "getMockResponse cfg fs rateDraw codeDraw requestPath method requestBody query headers forceError =
     (case forced forceError of
        Some code \<Rightarrow> getErrorResponse cfg fs code requestPath method
      | None \<Rightarrow>
          (case checkForSpecificError cfg fs requestPath method requestBody query headers of
             Inl e \<Rightarrow> Inl e
           | Inr (Some specificError) \<Rightarrow> Inr specificError
           | Inr None \<Rightarrow>
               if errorRate cfg > 0 \<and> rateDraw < errorRate cfg then
                 (let i = random_index codeDraw
                  in if i < length errorCodes
                     then getErrorResponse cfg fs (ErrNum (errorCodes ! i)) requestPath method
                     else Inl TypeError)
               else
                 (case findMock cfg fs requestPath method of
                    Inl e \<Rightarrow> Inl e
                  | Inr None \<Rightarrow> getErrorResponse cfg fs (ErrNum 404) requestPath method
                  | Inr (Some mockPath) \<Rightarrow> loadMock cfg fs mockPath requestPath method requestBody)))"

section \<open>A rule tree for the examples\<close>

text \<open>
  The directory \<^verbatim>\<open>/srv/mocks\<close> used by the concrete evaluations below:
  \<^verbatim>\<open>users/GET.json\<close>, \<^verbatim>\<open>users/[id]/GET.json\<close>, two scenario files under
  \<^verbatim>\<open>users/errors\<close> (the one for \<^verbatim>\<open>DELETE\<close> is not valid JSON), \<^verbatim>\<open>a/b/b.json\<close>,
  the method-agnostic \<^verbatim>\<open>legacy.json\<close> and \<^verbatim>\<open>products/index.json\<close>.
\<close>

definition example_scenario :: json where
  "example_scenario =
     JObj [(''_conditions'', JArr [JObj [(''body'', JObj [(''email'', JStr ''a@b.com'')])]]),
           (''_statusCode'', JNum 409),
           (''error'', JStr ''Email already registered'')]"

definition example_fs :: node where
  "example_fs =
     Dir [(''srv'', Dir [(''mocks'', Dir
       [(''users'', Dir
          [(''GET.json'', File (Some (JObj [(''users'', JArr []), (''_echo'', JBool True)]))),
           (''[id]'', Dir [(''GET.json'', File (Some (JObj [(''id'', JNum 1)])))]),
           (''errors'', Dir
              [(''PUT_duplicate.json'', File (Some example_scenario)),
               (''DELETE_broken.json'', File None)])]),
        (''a'', Dir [(''b'', Dir [(''b.json'', File (Some (JObj [(''found'', JBool True)])))])]),
        (''legacy.json'', File (Some (JObj [(''legacy'', JBool True)]))),
        (''products'', Dir [(''index.json'', File (Some (JObj [(''products'', JArr [])])))])])])]"

text \<open>A second tree that has only the rule file of \<^verbatim>\<open>GET /users\<close>.\<close>

definition example_fs_small :: node where
  "example_fs_small =
     Dir [(''srv'', Dir [(''mocks'', Dir
       [(''users'', Dir [(''GET.json'', File (Some (JObj [(''users'', JArr [])])))])])])]"

text \<open>
  A third tree: the literal \<^verbatim>\<open>users/me/GET.json\<close> beside the parametrized \<^verbatim>\<open>users/[id]\<close>, which
  holds the scenario file \<^verbatim>\<open>errors/GET_unauthorized.json\<close>.
\<close>

definition example_fs_sibling :: node where
  "example_fs_sibling =
     Dir [(''srv'', Dir [(''mocks'', Dir
       [(''users'', Dir
          [(''me'', Dir [(''GET.json'', File (Some (JObj [(''name'', JStr ''me'')])))]),
           (''[id]'', Dir
              [(''GET.json'', File (Some (JObj [(''id'', JNum 1)]))),
               (''errors'', Dir
                  [(''GET_unauthorized.json'',
                    File (Some (JObj [(''_statusCode'', JNum 401), (''error'', JStr ''Unauthorized'')])))])])])])])]"

definition example_cfg :: config where
  "example_cfg = \<lparr> mockDirectory = ''/srv/mocks'', errorRate = 0, interpolate = (\<lambda>t p m. Some t) \<rparr>"

section \<open>Rules for evaluating the model on concrete inputs\<close>

lemmas path_eval =
  path_join_def path_normalize_def join_slash_def resolve_segs_def path_basename_def
  path_dirname_def path_relative_def segments_def starts_with_def ends_with_def
  js_substring_def backslash_to_slash_def

lemmas fs_eval = existsSync_def readdirSync_def readJson_def

lemmas lookup_eval =
  findMock_def directLookup_def findMockWithParams_def getAllMockPaths_def skipped_def
  mockDirPath_of_def parsePathParams_def is_param_def param_name_def params_set_def
  exactPath_of_def normalizedPath_of_def trimmedPath_of_def

lemmas scenario_eval =
  checkForSpecificError_def is_dynamic_def errorApplies_def evaluateConditions_def
  condition_matches_def part_ok_def checks_hold_def truthy_opt_def scenario_response_def
  or_default_def existing_email_def invalid_input_def unauthorized_def forbidden_def
  length_below_6_def normalizedPath_of_def trimmedPath_of_def

lemmas error_eval =
  getErrorResponse_def template_response_def resolve_status_def number_status_def parseInt_def
  is_ws_def digit_val_def decimal_def toLowerCase_def lower_char_def upper_letters_def
  lower_letters_def errorMap_get_def errorMap_def errorDirectory_def
  default_response_def defaultErrors_def default_500_def error_body_def show_int_def
  show_nat.simps digit_char_def

lemmas resolve_eval =
  getMockResponse_def forced_def errorCodes_def loadMock_def buildResponse_def apply_body_def
  js_spread_def or_default_def

lemmas example_eval =
  example_fs_def example_fs_small_def example_fs_sibling_def example_cfg_def example_scenario_def

lemmas double_eval = random_index_def to_double_def ulp_def round_half_even_def ulp_search.simps

section \<open>The path matcher\<close>

lemma match_parts_None_iff:
  "length ds = length rs \<Longrightarrow>
   (match_parts ds rs params = None) = (\<exists>i<length ds. \<not> is_param (ds ! i) \<and> ds ! i \<noteq> rs ! i)"
proof (induction ds rs arbitrary: params rule: list_induct2)
  case Nil
  then show ?case by simp
next
  case (Cons d ds r rs)
  show ?case
  proof (cases "is_param d")
    case True
    then show ?thesis using Cons.IH [of "params_set params (param_name d) r"]
      by (auto simp: less_Suc_eq_0_disj)
  next
    case False
    then show ?thesis using Cons.IH [of params]
      by (auto simp: less_Suc_eq_0_disj)
  qed
qed

lemma match_parts_other:
  "length ds = length rs \<Longrightarrow> match_parts ds rs params = Some m \<Longrightarrow>
   \<forall>d\<in>set ds. is_param d \<longrightarrow> param_name d \<noteq> name \<Longrightarrow> m name = params name"
proof (induction ds rs arbitrary: params rule: list_induct2)
  case Nil
  then show ?case by simp
next
  case (Cons d ds r rs)
  then show ?case
    by (auto simp: params_set_def split: if_splits)
qed

lemma match_parts_last:
  "length ds = length rs \<Longrightarrow> match_parts ds rs params = Some m \<Longrightarrow>
   i < length ds \<Longrightarrow> is_param (ds ! i) \<Longrightarrow> param_name (ds ! i) \<noteq> ''__proto__'' \<Longrightarrow>
   \<forall>j<length ds. i < j \<longrightarrow> is_param (ds ! j) \<longrightarrow> param_name (ds ! j) \<noteq> param_name (ds ! i) \<Longrightarrow>
   m (param_name (ds ! i)) = Some (rs ! i)"
proof (induction ds rs arbitrary: params i rule: list_induct2)
  case Nil
  then show ?case by simp
next
  case (Cons d ds r rs)
  show ?case
  proof (cases i)
    case 0
    have later: "\<forall>x\<in>set ds. is_param x \<longrightarrow> param_name x \<noteq> param_name d"
    proof (intro ballI impI)
      fix x assume "x \<in> set ds" "is_param x"
      then obtain j where "j < length ds" "ds ! j = x" by (auto simp: in_set_conv_nth)
      with Cons.prems(5) [rule_format, of "Suc j"] 0 \<open>is_param x\<close>
      show "param_name x \<noteq> param_name d" by auto
    qed
    from Cons.prems 0 have m: "match_parts ds rs (params_set params (param_name d) r) = Some m"
      by simp
    from match_parts_other [OF Cons.hyps m later] Cons.prems 0
    show ?thesis by (simp add: params_set_def)
  next
    case (Suc k)
    from Cons.prems Suc obtain params' where m: "match_parts ds rs params' = Some m"
      by (auto split: if_splits)
    have "\<forall>j<length ds. k < j \<longrightarrow> is_param (ds ! j) \<longrightarrow> param_name (ds ! j) \<noteq> param_name (ds ! k)"
      using Cons.prems(5) Suc by auto
    with Cons.IH [OF m, of k] Cons.prems Suc show ?thesis by auto
  qed
qed

lemma match_parts_dom:
  "length ds = length rs \<Longrightarrow> match_parts ds rs params = Some m \<Longrightarrow>
   dom m = dom params \<union> ({param_name d |d. d \<in> set ds \<and> is_param d} - {''__proto__''})"
proof (induction ds rs arbitrary: params rule: list_induct2)
  case Nil
  then show ?case by simp
next
  case (Cons d ds r rs)
  show ?case
  proof (cases "is_param d")
    case True
    with Cons.prems have "match_parts ds rs (params_set params (param_name d) r) = Some m" by simp
    from Cons.IH [OF this] True show ?thesis
      by (auto simp: params_set_def split: if_splits)
  next
    case False
    with Cons.prems have "match_parts ds rs params = Some m" by (simp split: if_splits)
    from Cons.IH [OF this] False show ?thesis by auto
  qed
qed

lemma parsePathParams_Some_length:
  "parsePathParams requestPath mockDirPath \<noteq> None \<Longrightarrow>
   length (segments mockDirPath) = length (segments requestPath)"
  by (auto simp: parsePathParams_def Let_def split: if_splits)

text \<open>
  C4 (amended). With \<open>d\<close> the segments of the template and \<open>r\<close> those of the request path:
  different segment counts give no match; a literal template segment that differs from the
  request segment at its position gives no match; otherwise the matcher returns a binding whose
  keys are the names of the bracketed template segments (a parameter called \<^verbatim>\<open>__proto__\<close>
  gets no entry), and a name is bound to the request segment at the \<^emph>\<open>last\<close> position that
  carries this name.
\<close>

theorem parsePathParams_bindings:
  fixes requestPath mockDirPath :: string
  defines "d \<equiv> segments mockDirPath" and "r \<equiv> segments requestPath"
  shows "(length d \<noteq> length r \<longrightarrow> parsePathParams requestPath mockDirPath = None) \<and>
     (length d = length r \<longrightarrow>
        (\<exists>i<length d. \<not> is_param (d ! i) \<and> d ! i \<noteq> r ! i) \<longrightarrow>
        parsePathParams requestPath mockDirPath = None) \<and>
     (length d = length r \<longrightarrow>
        (\<forall>i<length d. \<not> is_param (d ! i) \<longrightarrow> d ! i = r ! i) \<longrightarrow>
        (\<exists>m. parsePathParams requestPath mockDirPath = Some m \<and>
           dom m = {param_name x |x. x \<in> set d \<and> is_param x} - {''__proto__''} \<and>
           (\<forall>i<length d. is_param (d ! i) \<longrightarrow> param_name (d ! i) \<noteq> ''__proto__'' \<longrightarrow>
              (\<forall>j<length d. i < j \<longrightarrow> is_param (d ! j) \<longrightarrow> param_name (d ! j) \<noteq> param_name (d ! i)) \<longrightarrow>
              m (param_name (d ! i)) = Some (r ! i))))"
proof (intro conjI impI)
  assume "length d \<noteq> length r"
  then show "parsePathParams requestPath mockDirPath = None"
    by (simp add: parsePathParams_def d_def r_def)
next
  assume len: "length d = length r" and "\<exists>i<length d. \<not> is_param (d ! i) \<and> d ! i \<noteq> r ! i"
  then have "match_parts d r Map.empty = None"
    using match_parts_None_iff [OF len] by simp
  with len show "parsePathParams requestPath mockDirPath = None"
    by (simp add: parsePathParams_def d_def r_def)
next
  assume len: "length d = length r" and ok: "\<forall>i<length d. \<not> is_param (d ! i) \<longrightarrow> d ! i = r ! i"
  then have "match_parts d r Map.empty \<noteq> None"
    using match_parts_None_iff [OF len, of Map.empty] by auto
  then obtain m where m: "match_parts d r Map.empty = Some m" by auto
  have p: "parsePathParams requestPath mockDirPath = Some m"
    using len m by (simp add: parsePathParams_def d_def r_def)
  have dm: "dom m = {param_name x |x. x \<in> set d \<and> is_param x} - {''__proto__''}"
    using match_parts_dom [OF len m] by simp
  have "\<forall>i<length d. is_param (d ! i) \<longrightarrow> param_name (d ! i) \<noteq> ''__proto__'' \<longrightarrow>
      (\<forall>j<length d. i < j \<longrightarrow> is_param (d ! j) \<longrightarrow> param_name (d ! j) \<noteq> param_name (d ! i)) \<longrightarrow>
      m (param_name (d ! i)) = Some (r ! i)"
    using match_parts_last [OF len m] by blast
  with p dm show "\<exists>m. parsePathParams requestPath mockDirPath = Some m \<and>
           dom m = {param_name x |x. x \<in> set d \<and> is_param x} - {''__proto__''} \<and>
           (\<forall>i<length d. is_param (d ! i) \<longrightarrow> param_name (d ! i) \<noteq> ''__proto__'' \<longrightarrow>
              (\<forall>j<length d. i < j \<longrightarrow> is_param (d ! j) \<longrightarrow> param_name (d ! j) \<noteq> param_name (d ! i)) \<longrightarrow>
              m (param_name (d ! i)) = Some (r ! i))"
    by blast
qed

text \<open>
  The theorem at \<^verbatim>\<open>/users/[id]/posts\<close> against \<^verbatim>\<open>/users/5/posts\<close> (a match that binds
  \<^verbatim>\<open>id\<close> to \<^verbatim>\<open>5\<close>), against \<^verbatim>\<open>/users/5\<close> (fewer segments) and against
  \<^verbatim>\<open>/users/5/photos\<close> (a literal segment differs).
\<close>

theorem parsePathParams_bindings_witness:
  "(\<exists>m. parsePathParams ''/users/5/posts'' ''/users/[id]/posts'' = Some m \<and>
        dom m = {''id''} \<and> m ''id'' = Some ''5'') \<and>
   parsePathParams ''/users/5'' ''/users/[id]/posts'' = None \<and>
   parsePathParams ''/users/5/photos'' ''/users/[id]/posts'' = None"
proof -
  define d where "d = [''users'', ''[id]'', ''posts'']"
  define r where "r = [''users'', ''5'', ''posts'']"
  have sd: "segments ''/users/[id]/posts'' = d"
    and sr: "segments ''/users/5/posts'' = r"
    and sr': "segments ''/users/5'' = [''users'', ''5'']"
    and sr'': "segments ''/users/5/photos'' = [''users'', ''5'', ''photos'']"
    by (simp_all add: segments_def d_def r_def)
  have p: "is_param ''[id]''" "\<not> is_param ''users''" "\<not> is_param ''posts''"
    "param_name ''[id]'' = ''id''"
    by (simp_all add: is_param_def param_name_def starts_with_def ends_with_def js_substring_def)
  have len: "length d = 3" "length r = 3" by (simp_all add: d_def r_def)
  have nth: "d ! 0 = ''users''" "d ! 1 = ''[id]''" "d ! 2 = ''posts''"
    "r ! 0 = ''users''" "r ! 1 = ''5''" "r ! 2 = ''posts''"
    by (simp_all add: d_def r_def)
  have cases3: "i = 0 \<or> i = 1 \<or> i = 2" if "i < 3" for i :: nat
    using that by arith
  have literal: "\<forall>i<length d. \<not> is_param (d ! i) \<longrightarrow> d ! i = r ! i"
  proof (intro allI impI)
    fix i assume a: "i < length d" "\<not> is_param (d ! i)"
    then have "i = 0 \<or> i = 1 \<or> i = 2" using len by (intro cases3) simp
    with a p nth show "d ! i = r ! i" by auto
  qed
  have names: "{param_name x |x. x \<in> set d \<and> is_param x} - {''__proto__''} = {''id''}"
  proof -
    have "{param_name x |x. x \<in> set d \<and> is_param x} = {param_name ''[id]''}"
    proof (intro equalityI subsetI)
      fix n assume "n \<in> {param_name x |x. x \<in> set d \<and> is_param x}"
      then obtain x where "n = param_name x" "x \<in> set d" "is_param x" by blast
      with p show "n \<in> {param_name ''[id]''}" by (auto simp: d_def)
    next
      fix n assume "n \<in> {param_name ''[id]''}"
      then have "n = param_name ''[id]'' \<and> ''[id]'' \<in> set d \<and> is_param ''[id]''"
        using p by (simp add: d_def)
      then show "n \<in> {param_name x |x. x \<in> set d \<and> is_param x}" by blast
    qed
    then show ?thesis using p by simp
  qed
  from parsePathParams_bindings [of "''/users/[id]/posts''" "''/users/5/posts''",
      THEN conjunct2, THEN conjunct2, unfolded sd sr, THEN mp, THEN mp, OF _ literal]
  obtain m where m: "parsePathParams ''/users/5/posts'' ''/users/[id]/posts'' = Some m"
    and dm: "dom m = {param_name x |x. x \<in> set d \<and> is_param x} - {''__proto__''}"
    and b: "\<And>i. i < length d \<Longrightarrow> is_param (d ! i) \<Longrightarrow> param_name (d ! i) \<noteq> ''__proto__'' \<Longrightarrow>
              (\<forall>j<length d. i < j \<longrightarrow> is_param (d ! j) \<longrightarrow> param_name (d ! j) \<noteq> param_name (d ! i)) \<Longrightarrow>
              m (param_name (d ! i)) = Some (r ! i)"
    using len by auto
  have "\<forall>j<length d. 1 < j \<longrightarrow> is_param (d ! j) \<longrightarrow> param_name (d ! j) \<noteq> param_name (d ! 1)"
  proof (intro allI impI)
    fix j assume a: "j < length d" "1 < j" "is_param (d ! j)"
    then have "j = 2" using len by simp
    with a p nth show "param_name (d ! j) \<noteq> param_name (d ! 1)" by simp
  qed
  with b [of 1] len p nth have "m ''id'' = Some ''5''" by simp
  moreover from parsePathParams_bindings [of "''/users/[id]/posts''" "''/users/5''", THEN conjunct1]
  have "parsePathParams ''/users/5'' ''/users/[id]/posts'' = None"
    unfolding sd sr' using len by simp
  moreover have "\<exists>i<length d. \<not> is_param (d ! i) \<and> d ! i \<noteq> [''users'', ''5'', ''photos''] ! i"
    using len nth p by (intro exI [of _ 2]) simp
  with parsePathParams_bindings [of "''/users/[id]/posts''" "''/users/5/photos''",
      THEN conjunct2, THEN conjunct1]
  have "parsePathParams ''/users/5/photos'' ''/users/[id]/posts'' = None"
    unfolding sd sr'' using len by simp
  ultimately show ?thesis using m dm names by auto
qed

text \<open>
  C4 as stated fails when two template segments carry the same name: for the template
  \<^verbatim>\<open>/[id]/[id]\<close> and the request \<^verbatim>\<open>/1/2\<close> the first bracketed segment stands at position 0,
  where the request has \<^verbatim>\<open>1\<close>, but \<^verbatim>\<open>id\<close> is bound to \<^verbatim>\<open>2\<close>.
\<close>

theorem parsePathParams_duplicate_name:
  "segments ''/[id]/[id]'' ! 0 = ''[id]'' \<and> is_param ''[id]'' \<and> param_name ''[id]'' = ''id'' \<and>
   segments ''/1/2'' ! 0 = ''1'' \<and>
   parsePathParams ''/1/2'' ''/[id]/[id]'' \<noteq> None \<and>
   the (parsePathParams ''/1/2'' ''/[id]/[id]'') ''id'' = Some ''2''"
  by (simp add: parsePathParams_def segments_def is_param_def starts_with_def ends_with_def
      param_name_def js_substring_def params_set_def)

section \<open>Declared conditions of an error scenario\<close>

lemma eval_list_iff:
  "JNull \<notin> set cs \<Longrightarrow>
   eval_list cs body query headers = Inr (\<exists>c\<in>set cs. condition_matches c body query headers)"
  by (induction cs) auto

lemma part_ok_iff:
  "part_ok c field given =
     (\<forall>declared. js_get c field = Some declared \<longrightarrow> truthy declared \<longrightarrow> truthy given \<longrightarrow>
        (\<forall>(k, v) \<in> set (js_entries declared). strict_eq (js_get given k) v))"
  by (auto simp: part_ok_def checks_hold_def list_all_iff split: option.splits)

text \<open>
  C2 (amended). For a condition set that is an array of conditions, none of them
  \<^verbatim>\<open>null\<close>, the scenario fires if and only if some condition holds; a condition holds when,
  for each of \<^verbatim>\<open>body\<close>, \<^verbatim>\<open>query\<close> and \<^verbatim>\<open>headers\<close> that it declares (with a truthy value)
  and that the request carries (with a truthy value), every declared key is strictly equal to
  the request's value for that key. A declared map whose counterpart is missing from the
  request is skipped, so it does not stand in the way of a match.
\<close>

theorem evaluateConditions_any_all:
  assumes "JNull \<notin> set cs"
  shows "evaluateConditions (JArr cs) body query headers =
     Inr (\<exists>c\<in>set cs. \<forall>(field, given) \<in> {(''body'', body), (''query'', query), (''headers'', headers)}.
            \<forall>declared. js_get c field = Some declared \<longrightarrow> truthy declared \<longrightarrow> truthy given \<longrightarrow>
              (\<forall>(k, v) \<in> set (js_entries declared). strict_eq (js_get given k) v))"
proof -
  have "condition_matches c body query headers =
      (\<forall>(field, given) \<in> {(''body'', body), (''query'', query), (''headers'', headers)}.
            \<forall>declared. js_get c field = Some declared \<longrightarrow> truthy declared \<longrightarrow> truthy given \<longrightarrow>
              (\<forall>(k, v) \<in> set (js_entries declared). strict_eq (js_get given k) v))" for c
    unfolding condition_matches_def part_ok_iff by simp
  with eval_list_iff [OF assms, of body query headers] show ?thesis
    by (simp add: evaluateConditions_def)
qed

text \<open>
  The theorem for the condition \<^verbatim>\<open>{body: {email: "a@b.com"}}\<close>: a body with this address
  fires, a body with another address does not.
\<close>

theorem evaluateConditions_any_all_witness:
  "JNull \<notin> set [JObj [(''body'', JObj [(''email'', JStr ''a@b.com'')])]] \<and>
   evaluateConditions (JArr [JObj [(''body'', JObj [(''email'', JStr ''a@b.com'')])]])
     (JObj [(''email'', JStr ''a@b.com'')]) (JObj []) (JObj []) = Inr True \<and>
   evaluateConditions (JArr [JObj [(''body'', JObj [(''email'', JStr ''a@b.com'')])]])
     (JObj [(''email'', JStr ''c@d.com'')]) (JObj []) (JObj []) = Inr False"
  using evaluateConditions_any_all [of "[JObj [(''body'', JObj [(''email'', JStr ''a@b.com'')])]]"
      "JObj [(''email'', JStr ''a@b.com'')]" "JObj []" "JObj []"]
    evaluateConditions_any_all [of "[JObj [(''body'', JObj [(''email'', JStr ''a@b.com'')])]]"
      "JObj [(''email'', JStr ''c@d.com'')]" "JObj []" "JObj []"]
  by simp

text \<open>
  C2 as stated says that a missing request body yields no match. With the body \<^verbatim>\<open>null\<close>
  the check of \<^verbatim>\<open>{body: {email: "a@b.com"}}\<close> is skipped and the scenario fires.
\<close>

theorem missing_body_fires:
  "evaluateConditions (JArr [JObj [(''body'', JObj [(''email'', JStr ''a@b.com'')])]])
     JNull (JObj []) (JObj []) = Inr True \<and>
   errorApplies (JObj [(''_conditions'', JArr [JObj [(''body'', JObj [(''email'', JStr ''a@b.com'')])]])])
     ''duplicate'' JNull (JObj []) (JObj []) = Inr True"
  by (simp add: errorApplies_def truthy_opt_def evaluateConditions_def condition_matches_def part_ok_def)







section \<open>Directives and the request-body overlay\<close>

lemma map_of_obj_put: "map_of (obj_put es kv) = (map_of es)(fst kv \<mapsto> snd kv)"
  by (induction es) (auto simp: fun_eq_iff)

lemma map_of_foldl_obj_put:
  "distinct (map fst kvs) \<Longrightarrow>
   map_of (foldl obj_put es kvs) k = (case map_of kvs k of Some v \<Rightarrow> Some v | None \<Rightarrow> map_of es k)"
proof (induction kvs arbitrary: es)
  case Nil
  then show ?case by simp
next
  case (Cons kv kvs)
  obtain a b where kv: "kv = (a, b)" by (cases kv)
  from Cons.prems kv have notin: "map_of kvs a = None" and dist: "distinct (map fst kvs)"
    by (auto simp: map_of_eq_None_iff)
  show ?case
  proof (cases "k = a")
    case True
    with notin kv Cons.IH [OF dist, of "obj_put es kv"] show ?thesis
      by (simp add: map_of_obj_put)
  next
    case False
    with kv Cons.IH [OF dist, of "obj_put es kv"] show ?thesis
      by (auto simp: map_of_obj_put split: option.splits)
  qed
qed

lemma map_of_filter_key:
  "map_of (filter (\<lambda>kv. fst kv \<noteq> k) es) k' = (if k' = k then None else map_of es k')"
  by (induction es) auto

lemma js_get_delete:
  "js_get (js_delete k (JObj es)) k' = (if k' = k then None else map_of es k')"
  by (simp add: map_of_filter_key)

lemma js_get_spread:
  "distinct (map fst (js_entries b)) \<Longrightarrow>
   js_get (js_spread (JObj es) b) k =
     (case map_of (js_entries b) k of Some v \<Rightarrow> Some v | None \<Rightarrow> map_of es k)"
  by (simp add: js_spread_def map_of_foldl_obj_put)

lemma js_delete_twice:
  "js_delete a (js_delete b (JObj es)) = JObj (filter (\<lambda>kv. fst kv \<notin> {b, a}) es)"
  by (induction es) auto

lemma js_delete_thrice:
  "js_delete a (js_delete b (js_delete c (JObj es))) = JObj (filter (\<lambda>kv. fst kv \<notin> {c, b, a}) es)"
  by (induction es) auto

lemma map_of_filter_two:
  "map_of (filter (\<lambda>kv. fst kv \<notin> {a, b}) es) k = (if k = a \<or> k = b then None else map_of es k)"
  by (induction es) auto

lemma buildResponse_obj:
  "buildResponse (JObj payload) method requestBody =
     Inr \<lparr> resp_body =
             apply_body (JObj (filter (\<lambda>kv. fst kv \<notin> {''_statusCode'', ''_headers''}) payload)) method requestBody,
           resp_statusCode = JV (or_default (map_of payload ''_statusCode'') (JNum 200)),
           resp_headers = or_default (map_of payload ''_headers'') (JObj []) \<rparr>"
  unfolding buildResponse_def Let_def js_delete_twice by simp

lemma apply_body_obj:
  "apply_body (JObj (filter (\<lambda>kv. fst kv \<notin> {''_statusCode'', ''_headers''}) payload)) meth requestBody =
     (if truthy requestBody \<and> (meth = ''POST'' \<or> meth = ''PUT'') \<and>
         map_of payload ''_echo'' = Some (JBool True)
      then js_spread (JObj (filter (\<lambda>kv. fst kv \<notin> {''_statusCode'', ''_headers'', ''_echo''}) payload))
             requestBody
      else if truthy requestBody \<and> (meth = ''POST'' \<or> meth = ''PUT'') \<and>
         map_of payload ''_merge'' = Some (JBool True)
      then js_spread (JObj (filter (\<lambda>kv. fst kv \<notin> {''_statusCode'', ''_headers'', ''_merge''}) payload))
             requestBody
      else JObj (filter (\<lambda>kv. fst kv \<notin> {''_statusCode'', ''_headers''}) payload))"
proof -
  have f: "filter (\<lambda>kv. fst kv \<noteq> k) (filter (\<lambda>kv. fst kv \<notin> {''_statusCode'', ''_headers''}) payload) =
      filter (\<lambda>kv. fst kv \<notin> {''_statusCode'', ''_headers'', k}) payload" for k
    by (induction payload) auto
  have g: "map_of (filter (\<lambda>kv. fst kv \<notin> {''_statusCode'', ''_headers''}) payload) ''_echo'' =
      map_of payload ''_echo''"
    "map_of (filter (\<lambda>kv. fst kv \<notin> {''_statusCode'', ''_headers''}) payload) ''_merge'' =
      map_of payload ''_merge''"
    by (induction payload) auto
  show ?thesis
    unfolding apply_body_def js_get.simps js_delete.simps f g
    by (cases "meth = ''POST'' \<or> meth = ''PUT''") simp_all
qed

text \<open>
  C3 (amended). For every rule payload that is an object, the final body is the payload
  without \<^verbatim>\<open>_statusCode\<close> and \<^verbatim>\<open>_headers\<close>; when the overlay is applied (POST or PUT, a truthy
  request body, \<^verbatim>\<open>_echo\<close> exactly \<^verbatim>\<open>true\<close> or else \<^verbatim>\<open>_merge\<close> exactly \<^verbatim>\<open>true\<close>), the applied
  flag is removed as well and the entries of the request body are laid over the rest, whatever
  their keys. Without an overlay nothing else is removed: \<^verbatim>\<open>_echo\<close>, \<^verbatim>\<open>_merge\<close> and
  \<^verbatim>\<open>_conditions\<close> stay in the body. This is the response of the resolution whenever the rule
  file read holds such a payload. The payload of an error scenario that fires loses
  \<^verbatim>\<open>_statusCode\<close>, \<^verbatim>\<open>_headers\<close> and \<^verbatim>\<open>_conditions\<close>.
\<close>

theorem directive_stripping:
  "buildResponse (JObj payload) meth requestBody =
     Inr \<lparr> resp_body =
             (if truthy requestBody \<and> (meth = ''POST'' \<or> meth = ''PUT'') \<and>
                 map_of payload ''_echo'' = Some (JBool True)
              then js_spread (JObj (filter (\<lambda>kv. fst kv \<notin> {''_statusCode'', ''_headers'', ''_echo''}) payload))
                     requestBody
              else if truthy requestBody \<and> (meth = ''POST'' \<or> meth = ''PUT'') \<and>
                 map_of payload ''_merge'' = Some (JBool True)
              then js_spread (JObj (filter (\<lambda>kv. fst kv \<notin> {''_statusCode'', ''_headers'', ''_merge''}) payload))
                     requestBody
              else JObj (filter (\<lambda>kv. fst kv \<notin> {''_statusCode'', ''_headers''}) payload)),
           resp_statusCode = JV (or_default (map_of payload ''_statusCode'') (JNum 200)),
           resp_headers = or_default (map_of payload ''_headers'') (JObj []) \<rparr> \<and>
   (readJson fs mockPath = Inr (JObj payload) \<longrightarrow>
      loadMock cfg fs mockPath requestPath meth requestBody =
        buildResponse (JObj payload) meth requestBody) \<and>
   resp_body (scenario_response (JObj errorData)) =
     JObj (filter (\<lambda>kv. fst kv \<notin> {''_statusCode'', ''_headers'', ''_conditions''}) errorData)"
proof (intro conjI impI)
  show "buildResponse (JObj payload) meth requestBody =
     Inr \<lparr> resp_body =
             (if truthy requestBody \<and> (meth = ''POST'' \<or> meth = ''PUT'') \<and>
                 map_of payload ''_echo'' = Some (JBool True)
              then js_spread (JObj (filter (\<lambda>kv. fst kv \<notin> {''_statusCode'', ''_headers'', ''_echo''}) payload))
                     requestBody
              else if truthy requestBody \<and> (meth = ''POST'' \<or> meth = ''PUT'') \<and>
                 map_of payload ''_merge'' = Some (JBool True)
              then js_spread (JObj (filter (\<lambda>kv. fst kv \<notin> {''_statusCode'', ''_headers'', ''_merge''}) payload))
                     requestBody
              else JObj (filter (\<lambda>kv. fst kv \<notin> {''_statusCode'', ''_headers''}) payload)),
           resp_statusCode = JV (or_default (map_of payload ''_statusCode'') (JNum 200)),
           resp_headers = or_default (map_of payload ''_headers'') (JObj []) \<rparr>"
    unfolding buildResponse_obj apply_body_obj by simp
next
  assume "readJson fs mockPath = Inr (JObj payload)"
  then show "loadMock cfg fs mockPath requestPath meth requestBody =
        buildResponse (JObj payload) meth requestBody"
    by (simp add: loadMock_def buildResponse_obj)
next
  show "resp_body (scenario_response (JObj errorData)) =
     JObj (filter (\<lambda>kv. fst kv \<notin> {''_statusCode'', ''_headers'', ''_conditions''}) errorData)"
    unfolding scenario_response_def js_delete_thrice by simp
qed

text \<open>
  The theorem at a \<^verbatim>\<open>GET\<close> without body on a payload that declares a status and the echo
  flag, at a \<^verbatim>\<open>POST\<close> whose body is laid over such a payload, at the rule file
  \<^verbatim>\<open>users/[id]/GET.json\<close> of the example tree, and at a scenario payload.
\<close>

theorem directive_stripping_witness:
  "buildResponse (JObj [(''users'', JArr []), (''_statusCode'', JNum 201), (''_echo'', JBool True)])
      ''GET'' JNull =
     Inr \<lparr> resp_body = JObj [(''users'', JArr []), (''_echo'', JBool True)],
           resp_statusCode = JV (JNum 201), resp_headers = JObj [] \<rparr> \<and>
   buildResponse (JObj [(''users'', JArr []), (''_statusCode'', JNum 201), (''_echo'', JBool True)])
      ''POST'' (JObj [(''name'', JStr ''x'')]) =
     Inr \<lparr> resp_body = JObj [(''users'', JArr []), (''name'', JStr ''x'')],
           resp_statusCode = JV (JNum 201), resp_headers = JObj [] \<rparr> \<and>
   loadMock example_cfg example_fs ''/srv/mocks/users/[id]/GET.json'' ''/users/7'' ''GET'' JNull =
     Inr \<lparr> resp_body = JObj [(''id'', JNum 1)],
           resp_statusCode = JV (JNum 200), resp_headers = JObj [] \<rparr> \<and>
   resp_body (scenario_response
      (JObj [(''_conditions'', JArr [JObj []]), (''_statusCode'', JNum 409), (''error'', JStr ''taken'')])) =
     JObj [(''error'', JStr ''taken'')]"
proof -
  have r: "readJson example_fs ''/srv/mocks/users/[id]/GET.json'' = Inr (JObj [(''id'', JNum 1)])"
    by (simp add: example_eval path_eval fs_eval)
  note t = directive_stripping [where fs = example_fs and cfg = example_cfg
      and mockPath = "''/srv/mocks/users/[id]/GET.json''" and requestPath = "''/users/7''"
      and errorData = "[(''_conditions'', JArr [JObj []]), (''_statusCode'', JNum 409), (''error'', JStr ''taken'')]"]
  have a: "buildResponse (JObj [(''users'', JArr []), (''_statusCode'', JNum 201), (''_echo'', JBool True)])
      ''GET'' JNull =
     Inr \<lparr> resp_body = JObj [(''users'', JArr []), (''_echo'', JBool True)],
           resp_statusCode = JV (JNum 201), resp_headers = JObj [] \<rparr>"
    using t [where payload = "[(''users'', JArr []), (''_statusCode'', JNum 201), (''_echo'', JBool True)]"
        and meth = "''GET''" and requestBody = JNull, THEN conjunct1]
    by (simp add: or_default_def)
  have b: "buildResponse (JObj [(''users'', JArr []), (''_statusCode'', JNum 201), (''_echo'', JBool True)])
      ''POST'' (JObj [(''name'', JStr ''x'')]) =
     Inr \<lparr> resp_body = JObj [(''users'', JArr []), (''name'', JStr ''x'')],
           resp_statusCode = JV (JNum 201), resp_headers = JObj [] \<rparr>"
    using t [where payload = "[(''users'', JArr []), (''_statusCode'', JNum 201), (''_echo'', JBool True)]"
        and meth = "''POST''" and requestBody = "JObj [(''name'', JStr ''x'')]", THEN conjunct1]
    by (simp add: or_default_def js_spread_def)
  have c: "loadMock example_cfg example_fs ''/srv/mocks/users/[id]/GET.json'' ''/users/7'' ''GET'' JNull =
     Inr \<lparr> resp_body = JObj [(''id'', JNum 1)],
           resp_statusCode = JV (JNum 200), resp_headers = JObj [] \<rparr>"
    using t [where payload = "[(''id'', JNum 1)]" and meth = "''GET''" and requestBody = JNull] r
    by (simp add: or_default_def)
  have d: "resp_body (scenario_response
      (JObj [(''_conditions'', JArr [JObj []]), (''_statusCode'', JNum 409), (''error'', JStr ''taken'')])) =
     JObj [(''error'', JStr ''taken'')]"
    using t [where payload = "[]" and meth = "''GET''" and requestBody = JNull,
        THEN conjunct2, THEN conjunct2]
    by simp
  from a b c d show ?thesis by blast
qed

text \<open>
  C3 as stated fails for a \<^verbatim>\<open>GET\<close>: the rule file \<^verbatim>\<open>users/GET.json\<close> of the example tree
  declares \<^verbatim>\<open>_echo\<close>, and the flag is part of the body returned.
\<close>

theorem get_keeps_echo_flag:
  "getMockResponse example_cfg example_fs 0 0 ''/users'' ''GET'' JNull (JObj []) (JObj []) None =
     Inr \<lparr> resp_body = JObj [(''users'', JArr []), (''_echo'', JBool True)],
           resp_statusCode = JV (JNum 200), resp_headers = JObj [] \<rparr>"
  by (simp add: resolve_eval scenario_eval lookup_eval example_eval path_eval fs_eval)

text \<open>
  C6 (amended). For a POST or PUT with a truthy request body whose keys are distinct, and an
  object payload in which \<^verbatim>\<open>_echo\<close> is \<^verbatim>\<open>true\<close>, or else \<^verbatim>\<open>_merge\<close> is \<^verbatim>\<open>true\<close>: every key
  of the request body has the request's value in the final body, and any other key has the
  payload's value, except \<^verbatim>\<open>_statusCode\<close>, \<^verbatim>\<open>_headers\<close> and the one flag that was applied
  (\<^verbatim>\<open>_echo\<close> when it is \<^verbatim>\<open>true\<close>, otherwise \<^verbatim>\<open>_merge\<close>), which are absent.
\<close>

theorem echo_merge_overlay:
  assumes m: "method = ''POST'' \<or> method = ''PUT''"
    and b: "truthy requestBody"
    and d: "distinct (map fst (js_entries requestBody))"
    and f: "flag = (if map_of payload ''_echo'' = Some (JBool True) then ''_echo'' else ''_merge'')"
    and t: "map_of payload flag = Some (JBool True)"
  shows "\<exists>r. buildResponse (JObj payload) method requestBody = Inr r \<and>
      (\<forall>k. js_get (resp_body r) k =
         (case map_of (js_entries requestBody) k of
            Some v \<Rightarrow> Some v
          | None \<Rightarrow> if k \<in> {''_statusCode'', ''_headers'', flag} then None else map_of payload k))"
proof -
  define stripped where "stripped = filter (\<lambda>kv. fst kv \<notin> {''_statusCode'', ''_headers''}) payload"
  have s: "map_of stripped k = (if k = ''_statusCode'' \<or> k = ''_headers'' then None else map_of payload k)" for k
    unfolding stripped_def by (rule map_of_filter_two)
  have body: "apply_body (JObj stripped) method requestBody = js_spread (js_delete flag (JObj stripped)) requestBody"
  proof (cases "map_of payload ''_echo'' = Some (JBool True)")
    case True
    with f m b show ?thesis by (simp add: apply_body_def s)
  next
    case False
    with f t m b show ?thesis by (simp add: apply_body_def s)
  qed
  have "js_get (js_spread (js_delete flag (JObj stripped)) requestBody) k =
         (case map_of (js_entries requestBody) k of
            Some v \<Rightarrow> Some v
          | None \<Rightarrow> if k \<in> {''_statusCode'', ''_headers'', flag} then None else map_of payload k)" for k
    using js_get_spread [OF d, of "filter (\<lambda>kv. fst kv \<noteq> flag) stripped" k]
    by (simp add: map_of_filter_key s split: option.splits)
  then show ?thesis
    unfolding buildResponse_obj stripped_def [symmetric] body by simp
qed

text \<open>
  The example of the specification: payload \<^verbatim>\<open>{a:1, b:2}\<close> with either flag and request body
  \<^verbatim>\<open>{b:9, c:3}\<close> give \<^verbatim>\<open>{a:1, b:9, c:3}\<close>.
\<close>

theorem echo_merge_overlay_witness:
  "buildResponse (JObj [(''a'', JNum 1), (''b'', JNum 2), (''_echo'', JBool True)]) ''POST''
      (JObj [(''b'', JNum 9), (''c'', JNum 3)]) =
     Inr \<lparr> resp_body = JObj [(''a'', JNum 1), (''b'', JNum 9), (''c'', JNum 3)],
           resp_statusCode = JV (JNum 200), resp_headers = JObj [] \<rparr> \<and>
   buildResponse (JObj [(''a'', JNum 1), (''b'', JNum 2), (''_merge'', JBool True)]) ''PUT''
      (JObj [(''b'', JNum 9), (''c'', JNum 3)]) =
     Inr \<lparr> resp_body = JObj [(''a'', JNum 1), (''b'', JNum 9), (''c'', JNum 3)],
           resp_statusCode = JV (JNum 200), resp_headers = JObj [] \<rparr>"
  using
    echo_merge_overlay [of "''POST''" "JObj [(''b'', JNum 9), (''c'', JNum 3)]" "''_echo''"
      "[(''a'', JNum 1), (''b'', JNum 2), (''_echo'', JBool True)]"]
    echo_merge_overlay [of "''PUT''" "JObj [(''b'', JNum 9), (''c'', JNum 3)]" "''_merge''"
      "[(''a'', JNum 1), (''b'', JNum 2), (''_merge'', JBool True)]"]
  by (simp add: buildResponse_def apply_body_def js_spread_def or_default_def)

text \<open>
  C6 as stated fails when the payload declares both flags: only \<^verbatim>\<open>_echo\<close> is removed, and
  \<^verbatim>\<open>_merge\<close> is part of the final body, which is therefore not the union of \<^verbatim>\<open>{a:1, b:2}\<close>
  and \<^verbatim>\<open>{b:9, c:3}\<close>.
\<close>

theorem both_flags_leave_merge:
  "buildResponse (JObj [(''a'', JNum 1), (''b'', JNum 2), (''_echo'', JBool True), (''_merge'', JBool True)])
      ''POST'' (JObj [(''b'', JNum 9), (''c'', JNum 3)]) =
     Inr \<lparr> resp_body = JObj [(''a'', JNum 1), (''b'', JNum 9), (''_merge'', JBool True), (''c'', JNum 3)],
           resp_statusCode = JV (JNum 200), resp_headers = JObj [] \<rparr>"
  by (simp add: buildResponse_def apply_body_def js_spread_def or_default_def)

section \<open>Rule lookup\<close>

lemma findMock_directLookup:
  "findMock cfg fs requestPath method =
     (case directLookup cfg fs requestPath method of
        Some p \<Rightarrow> Inr (Some p)
      | None \<Rightarrow> findMockWithParams cfg fs (normalizedPath_of requestPath) method)"
  by (simp add: findMock_def directLookup_def Let_def)






lemma first_match_find:
  "first_match cfg requestPath method paths =
     find (\<lambda>p. \<not> skipped requestPath method p \<and>
                parsePathParams requestPath (mockDirPath_of cfg p) \<noteq> None) paths"
  by (induction paths) auto

text \<open>
  C9 (amended). The fallback returns the first candidate, in enumeration order, that passes the
  file-name filter and whose containing directory matches the request path; a returned
  candidate therefore has a containing directory with exactly as many segments as the request
  path. A candidate that passes the filter only by its base name (the request's final segment
  plus \<^verbatim>\<open>.json\<close>) is returned under the same condition; one whose directory has fewer
  segments than the request path is not.
\<close>

theorem fallback_first_structural_match:
  "(\<forall>paths. getAllMockPaths cfg fs = Inr paths \<longrightarrow>
      findMockWithParams cfg fs requestPath meth =
        Inr (find (\<lambda>p. \<not> skipped requestPath meth p \<and>
                       parsePathParams requestPath (mockDirPath_of cfg p) \<noteq> None) paths)) \<and>
   (\<forall>mockPath. findMockWithParams cfg fs requestPath meth = Inr (Some mockPath) \<longrightarrow>
      \<not> skipped requestPath meth mockPath \<and>
      parsePathParams requestPath (mockDirPath_of cfg mockPath) \<noteq> None \<and>
      length (segments (mockDirPath_of cfg mockPath)) = length (segments requestPath))"
proof (intro conjI allI impI)
  fix paths assume "getAllMockPaths cfg fs = Inr paths"
  then show "findMockWithParams cfg fs requestPath meth =
        Inr (find (\<lambda>p. \<not> skipped requestPath meth p \<and>
                       parsePathParams requestPath (mockDirPath_of cfg p) \<noteq> None) paths)"
    by (simp add: findMockWithParams_def first_match_find)
next
  fix mockPath
  assume "findMockWithParams cfg fs requestPath meth = Inr (Some mockPath)"
  then obtain paths where
    "find (\<lambda>p. \<not> skipped requestPath meth p \<and>
               parsePathParams requestPath (mockDirPath_of cfg p) \<noteq> None) paths = Some mockPath"
    by (auto simp: findMockWithParams_def first_match_find split: sum.splits)
  then have ok: "\<not> skipped requestPath meth mockPath \<and>
      parsePathParams requestPath (mockDirPath_of cfg mockPath) \<noteq> None"
    by (auto simp: find_Some_iff)
  then show "\<not> skipped requestPath meth mockPath" 
     "parsePathParams requestPath (mockDirPath_of cfg mockPath) \<noteq> None"
     "length (segments (mockDirPath_of cfg mockPath)) = length (segments requestPath)"
    by (simp_all add: parsePathParams_Some_length)
qed

text \<open>
  The theorem at \<^verbatim>\<open>GET /users/7\<close> on the example tree: the file returned lies in
  \<^verbatim>\<open>/users/[id]\<close>, two segments as the request has. And at \<^verbatim>\<open>POST /legacy\<close>: the file
  \<^verbatim>\<open>legacy.json\<close> passes the filter by its base name, but it lies in the rule directory itself
  (no segment) and is not what the fallback returns.
\<close>

theorem fallback_first_structural_match_witness:
  "findMockWithParams example_cfg example_fs ''/users/7'' ''GET'' =
     Inr (Some ''/srv/mocks/users/[id]/GET.json'') \<and>
   mockDirPath_of example_cfg ''/srv/mocks/users/[id]/GET.json'' = ''/users/[id]'' \<and>
   length (segments ''/users/[id]'') = length (segments ''/users/7'') \<and>
   path_basename ''/srv/mocks/legacy.json'' = path_basename ''/legacy'' @ ''.json'' \<and>
   mockDirPath_of example_cfg ''/srv/mocks/legacy.json'' = ''/'' \<and>
   findMockWithParams example_cfg example_fs ''/legacy'' ''POST'' \<noteq> Inr (Some ''/srv/mocks/legacy.json'')"
proof -
  have f: "findMockWithParams example_cfg example_fs ''/users/7'' ''GET'' =
     Inr (Some ''/srv/mocks/users/[id]/GET.json'')"
    by (simp add: lookup_eval example_eval path_eval fs_eval)
  have m: "mockDirPath_of example_cfg ''/srv/mocks/users/[id]/GET.json'' = ''/users/[id]''"
    "mockDirPath_of example_cfg ''/srv/mocks/legacy.json'' = ''/''"
    by (simp_all add: lookup_eval example_eval path_eval)
  have b: "path_basename ''/srv/mocks/legacy.json'' = path_basename ''/legacy'' @ ''.json''"
    by (simp add: path_eval)
  have s: "length (segments ''/'') \<noteq> length (segments ''/legacy'')"
    by (simp add: segments_def)
  from fallback_first_structural_match [where cfg = example_cfg and fs = example_fs
      and requestPath = "''/users/7''" and meth = "''GET''", THEN conjunct2, rule_format, OF f] m
  have l: "length (segments ''/users/[id]'') = length (segments ''/users/7'')" by simp
  have "findMockWithParams example_cfg example_fs ''/legacy'' ''POST'' \<noteq> Inr (Some ''/srv/mocks/legacy.json'')"
  proof
    assume "findMockWithParams example_cfg example_fs ''/legacy'' ''POST'' = Inr (Some ''/srv/mocks/legacy.json'')"
    from fallback_first_structural_match [where cfg = example_cfg and fs = example_fs
      and requestPath = "''/legacy''" and meth = "''POST''", THEN conjunct2, rule_format, OF this] m s
    show False by simp
  qed
  with f m b l show ?thesis by simp
qed

text \<open>
  C9 as stated says that a file admitted only by its base name is never returned. For
  \<^verbatim>\<open>GET /a/b\<close> the direct lookup finds nothing and the fallback returns \<^verbatim>\<open>a/b/b.json\<close>,
  which is neither \<^verbatim>\<open>GET.json\<close> nor \<^verbatim>\<open>index.json\<close>: its directory \<^verbatim>\<open>/a/b\<close> has the two
  segments of the request.
\<close>

theorem fallback_returns_basename_file:
  "findMockWithParams example_cfg example_fs ''/a/b'' ''GET'' = Inr (Some ''/srv/mocks/a/b/b.json'') \<and>
   path_basename ''/srv/mocks/a/b/b.json'' = path_basename ''/a/b'' @ ''.json'' \<and>
   path_basename ''/srv/mocks/a/b/b.json'' \<noteq> ''GET.json'' \<and>
   path_basename ''/srv/mocks/a/b/b.json'' \<noteq> ''index.json'' \<and>
   directLookup example_cfg example_fs ''/a/b'' ''GET'' = None"
  by (simp add: lookup_eval example_eval path_eval fs_eval)

section \<open>The order of resolution\<close>

lemma round_half_even_ge: "of_int n \<le> q \<Longrightarrow> n \<le> round_half_even q"
proof -
  assume "of_int n \<le> q"
  then have "n \<le> \<lfloor>q\<rfloor>" by (simp add: le_floor_iff)
  then show ?thesis by (simp add: round_half_even_def Let_def)
qed

lemma round_half_even_less: "q < of_int n - 1 / 2 \<Longrightarrow> round_half_even q < n"
proof -
  assume a: "q < of_int n - 1 / 2"
  then have "q < of_int n" by simp
  then have f: "\<lfloor>q\<rfloor> < n" by (simp add: floor_less_iff)
  show ?thesis
  proof (cases "\<lfloor>q\<rfloor> = n - 1")
    case True
    with a have "q - of_int \<lfloor>q\<rfloor> < 1 / 2" by simp
    with f show ?thesis by (simp add: round_half_even_def Let_def)
  next
    case False
    with f have "\<lfloor>q\<rfloor> + 1 < n" by simp
    then show ?thesis by (simp add: round_half_even_def Let_def)
  qed
qed

lemma ulp_search_power: "\<exists>m\<ge>50. ulp_search k y = 1 / 2 ^ m"
proof (induction k y rule: ulp_search.induct)
  case (1 k y)
  show ?case
  proof (cases "1022 \<le> k \<or> 1 / 2 ^ k \<le> y")
    case True
    then have "ulp_search k y = 1 / 2 ^ (k + 52)" by (simp add: ulp_search.simps)
    then show ?thesis by (intro exI [of _ "k + 52"]) simp
  next
    case False
    with 1 show ?thesis by (simp add: ulp_search.simps [of k y])
  qed
qed

lemma ulp_power: "\<exists>m\<ge>50. ulp y = 1 / 2 ^ m"
proof -
  have "\<exists>m\<ge>(50::nat). (1::rat) / 2 ^ 50 = 1 / 2 ^ m"
    by (intro exI [of _ 50]) simp
  moreover have "\<exists>m\<ge>(50::nat). (1::rat) / 2 ^ 51 = 1 / 2 ^ m"
    by (intro exI [of _ 51]) simp
  moreover have "\<exists>m\<ge>(50::nat). (1::rat) / 2 ^ 52 = 1 / 2 ^ m"
    by (intro exI [of _ 52]) simp
  ultimately show ?thesis using ulp_search_power [of 1 y] by (simp add: ulp_def)
qed

text \<open>
  Rounding the product does not take it below an integer it has reached, and does not take
  it up to an integer from which it stays \<open>2\<^sup>-\<^sup>5\<^sup>1\<close> away.
\<close>

lemma to_double_ge:
  assumes "of_nat k \<le> y"
  shows "of_nat k \<le> to_double y"
proof -
  obtain m where m: "ulp y = 1 / 2 ^ m" using ulp_power by blast
  have "of_int (int k * 2 ^ m) \<le> y * 2 ^ m" using assms by simp
  then have "int k * 2 ^ m \<le> round_half_even (y * 2 ^ m)" by (rule round_half_even_ge)
  then have "of_int (int k * 2 ^ m) \<le> (of_int (round_half_even (y * 2 ^ m)) :: rat)"
    by (simp only: of_int_le_iff)
  then have "of_nat k * 2 ^ m \<le> (of_int (round_half_even (y * 2 ^ m)) :: rat)" by simp
  then have "of_nat k \<le> (of_int (round_half_even (y * 2 ^ m)) :: rat) / 2 ^ m"
    by (simp add: pos_le_divide_eq)
  then show ?thesis by (simp add: to_double_def m)
qed

lemma to_double_less:
  assumes "y < of_nat k - 1 / 2 ^ 51"
  shows "to_double y < of_nat k"
proof -
  obtain m where m: "ulp y = 1 / 2 ^ m" and m50: "50 \<le> m" using ulp_power by blast
  have "(2::rat) ^ 51 \<le> 2 * 2 ^ m" using m50 power_increasing [of 51 "Suc m" "2::rat"] by simp
  then have half: "(1::rat) / 2 \<le> 2 ^ m / 2 ^ 51" by (simp add: field_simps)
  have "y * 2 ^ m < (of_nat k - 1 / 2 ^ 51) * 2 ^ m" using assms by simp
  also have "\<dots> = of_nat k * 2 ^ m - 2 ^ m / 2 ^ 51" by (simp add: algebra_simps)
  also have "\<dots> \<le> of_int (int k * 2 ^ m) - 1 / 2" using half by simp
  finally have "round_half_even (y * 2 ^ m) < int k * 2 ^ m" by (rule round_half_even_less)
  then have "(of_int (round_half_even (y * 2 ^ m)) :: rat) < of_int (int k * 2 ^ m)"
    by (simp only: of_int_less_iff)
  then have "(of_int (round_half_even (y * 2 ^ m)) :: rat) < of_nat k * 2 ^ m" by simp
  then have "(of_int (round_half_even (y * 2 ^ m)) :: rat) / 2 ^ m < of_nat k"
    by (simp add: pos_divide_less_eq)
  then show ?thesis by (simp add: to_double_def m)
qed

lemma random_index_fifth:
  assumes "of_nat k \<le> draw * 5" "draw * 5 < of_nat k + 1 - 1 / 2 ^ 51"
  shows "random_index draw = k"
proof -
  have "of_nat k \<le> to_double (draw * 5)" using assms(1) by (rule to_double_ge)
  moreover have "to_double (draw * 5) < of_nat (Suc k)"
    using assms(2) by (intro to_double_less) simp
  ultimately have "\<lfloor>to_double (draw * 5)\<rfloor> = int k" by (intro floor_unique) simp_all
  then show ?thesis by (simp add: random_index_def)
qed

text \<open>The greatest double below 1 is \<open>1 - 2\<^sup>-\<^sup>5\<^sup>3\<close>: every draw gives an index into the list.\<close>

lemma random_index_bound:
  assumes "0 \<le> draw" "draw \<le> 1 - 1 / 2 ^ 53"
  shows "random_index draw < 5"
proof -
  have "draw * 5 \<le> (1 - 1 / 2 ^ 53) * 5" using assms(2) by simp
  also have "\<dots> < of_nat 5 - 1 / 2 ^ 51" by simp
  finally have "to_double (draw * 5) < of_nat 5" by (rule to_double_less)
  then have "\<lfloor>to_double (draw * 5)\<rfloor> < 5" by (simp add: floor_less_iff)
  then show ?thesis unfolding random_index_def by linarith
qed

text \<open>
  The double nearest to \<open>0.6\<close> lies below \<open>3/5\<close>, yet its product with 5 rounds to 3.
\<close>

lemma random_index_rounds_up:
  "(5404319552844595 / 2 ^ 53 :: rat) < 3 / 5 \<and> random_index (5404319552844595 / 2 ^ 53) = 3"
proof -
  have f: "\<lfloor>27021597764222975 / 4 :: rat\<rfloor> = 6755399441055743" by (intro floor_unique) simp_all
  have "to_double (5404319552844595 / 2 ^ 53 * 5) = 3"
    by (simp add: to_double_def ulp_def round_half_even_def Let_def f)
  then show ?thesis by (simp add: random_index_def)
qed

text \<open>
  The scenario files of the method are tried in the order of the directory listing: the first
  that applies gives the response, the files before it having been read and found not to
  apply; when none applies, no scenario fires.
\<close>

lemma try_scenarios_first_firing:
  assumes "\<forall>f\<in>set pre. \<exists>d. readJson fs (path_join errorsDir f) = Inr d \<and>
             errorApplies d (js_substring f (length meth + 1) (length f - 5)) body query headers = Inr False"
    and "readJson fs (path_join errorsDir g) = Inr errorData"
    and "errorApplies errorData (js_substring g (length meth + 1) (length g - 5)) body query headers = Inr True"
  shows "try_scenarios fs errorsDir meth body query headers (pre @ g # post) =
           Inr (Some (scenario_response errorData))"
  using assms by (induction pre) (auto simp: Let_def)

lemma try_scenarios_none_firing:
  assumes "\<forall>f\<in>set files. \<exists>d. readJson fs (path_join errorsDir f) = Inr d \<and>
             errorApplies d (js_substring f (length meth + 1) (length f - 5)) body query headers = Inr False"
  shows "try_scenarios fs errorsDir meth body query headers files = Inr None"
  using assms by (induction files) (auto simp: Let_def)

text \<open>
  The order in which \<^verbatim>\<open>getMockResponse\<close> decides, for every request: a forced error is
  synthesised at once; otherwise a failure of the scenario evaluation leaves the function, and
  a scenario that fires is the result; otherwise, when the rate is positive and the first draw
  below it, the error of the code at the drawn index is synthesised; otherwise the file of the
  direct lookup is loaded; otherwise the file of the parametrized fallback, whose failure
  leaves the function as well; otherwise the 404 error is synthesised.
\<close>

lemma resolution_order:
  fixes cfg :: config and fs :: node and rateDraw codeDraw :: rat
    and requestPath meth :: string and requestBody query headers :: json
    and forceError :: "errorCode option"
  defines "result \<equiv> getMockResponse cfg fs rateDraw codeDraw requestPath meth requestBody query headers forceError"
    and "scenarios \<equiv> checkForSpecificError cfg fs requestPath meth requestBody query headers"
    and "inject \<equiv> (errorRate cfg > 0 \<and> rateDraw < errorRate cfg)"
    and "fallback \<equiv> findMockWithParams cfg fs (normalizedPath_of requestPath) meth"
  shows
   "(\<forall>code. forced forceError = Some code \<longrightarrow>
        result = getErrorResponse cfg fs code requestPath meth) \<and>
    (forced forceError = None \<longrightarrow>
      (\<forall>e. scenarios = Inl e \<longrightarrow> result = Inl e) \<and>
      (\<forall>r. scenarios = Inr (Some r) \<longrightarrow> result = Inr r) \<and>
      (scenarios = Inr None \<longrightarrow>
        (inject \<longrightarrow>
           (\<forall>k<5. random_index codeDraw = k \<longrightarrow>
               result = getErrorResponse cfg fs (ErrNum ([400, 401, 403, 404, 500] ! k)) requestPath meth)) \<and>
        (\<not> inject \<longrightarrow>
          (\<forall>p. directLookup cfg fs requestPath meth = Some p \<longrightarrow>
               result = loadMock cfg fs p requestPath meth requestBody) \<and>
          (directLookup cfg fs requestPath meth = None \<longrightarrow>
             (\<forall>e. fallback = Inl e \<longrightarrow> result = Inl e) \<and>
             (\<forall>p. fallback = Inr (Some p) \<longrightarrow>
                  result = loadMock cfg fs p requestPath meth requestBody) \<and>
             (fallback = Inr None \<longrightarrow>
                  result = getErrorResponse cfg fs (ErrNum 404) requestPath meth)))))"
proof -
  have looked: "result = (case findMock cfg fs requestPath meth of
                    Inl e \<Rightarrow> Inl e
                  | Inr None \<Rightarrow> getErrorResponse cfg fs (ErrNum 404) requestPath meth
                  | Inr (Some mockPath) \<Rightarrow> loadMock cfg fs mockPath requestPath meth requestBody)"
    if "forced forceError = None" "scenarios = Inr None" "\<not> inject"
    using that by (auto simp add: result_def scenarios_def inject_def getMockResponse_def)
  show ?thesis
  proof (intro conjI impI allI)
    fix code assume "forced forceError = Some code"
    then show "result = getErrorResponse cfg fs code requestPath meth"
      by (simp add: result_def getMockResponse_def)
  next
    fix e assume "forced forceError = None" "scenarios = Inl e"
    then show "result = Inl e" by (simp add: result_def scenarios_def getMockResponse_def)
  next
    fix r assume "forced forceError = None" "scenarios = Inr (Some r)"
    then show "result = Inr r" by (simp add: result_def scenarios_def getMockResponse_def)
  next
    fix k :: nat
    assume "forced forceError = None" "scenarios = Inr None" inject "k < 5" "random_index codeDraw = k"
    then show "result = getErrorResponse cfg fs (ErrNum ([400, 401, 403, 404, 500] ! k)) requestPath meth"
      by (simp add: result_def scenarios_def inject_def getMockResponse_def errorCodes_def)
  next
    fix p
    assume a: "forced forceError = None" "scenarios = Inr None" "\<not> inject"
      and "directLookup cfg fs requestPath meth = Some p"
    with looked [OF a] show "result = loadMock cfg fs p requestPath meth requestBody"
      by (simp add: findMock_directLookup)
  next
    fix e
    assume a: "forced forceError = None" "scenarios = Inr None" "\<not> inject"
      and "directLookup cfg fs requestPath meth = None" "fallback = Inl e"
    with looked [OF a] show "result = Inl e"
      by (simp add: findMock_directLookup fallback_def)
  next
    fix p
    assume a: "forced forceError = None" "scenarios = Inr None" "\<not> inject"
      and "directLookup cfg fs requestPath meth = None" "fallback = Inr (Some p)"
    with looked [OF a] show "result = loadMock cfg fs p requestPath meth requestBody"
      by (simp add: findMock_directLookup fallback_def)
  next
    assume a: "forced forceError = None" "scenarios = Inr None" "\<not> inject"
      and "directLookup cfg fs requestPath meth = None" "fallback = Inr None"
    with looked [OF a] show "result = getErrorResponse cfg fs (ErrNum 404) requestPath meth"
      by (simp add: findMock_directLookup fallback_def)
  qed
qed

text \<open>
  C1. The order does not hold for every request. For \<^verbatim>\<open>DELETE /users\<close> on the example tree no
  error is forced, no scenario can fire (the only scenario file read for this method,
  \<^verbatim>\<open>users/errors/DELETE_broken.json\<close>, is not valid JSON), the rate is 0, and neither the
  direct lookup nor the parametrized fallback finds a rule file, so the order prescribes the
  last step, the synthesised 404. Instead the \<^verbatim>\<open>SyntaxError\<close> of the scenario evaluation
  leaves \<^verbatim>\<open>getMockResponse\<close>, and none of the later steps is taken.
\<close>

theorem scenario_failure_ends_resolution:
  "forced None = None \<and>
   errorRate example_cfg = 0 \<and>
   directLookup example_cfg example_fs ''/users'' ''DELETE'' = None \<and>
   findMockWithParams example_cfg example_fs (normalizedPath_of ''/users'') ''DELETE'' = Inr None \<and>
   getErrorResponse example_cfg example_fs (ErrNum 404) ''/users'' ''DELETE'' =
     Inr \<lparr> resp_body = error_body ''Not Found'' ''Resource at DELETE /users was not found.'',
           resp_statusCode = JV (JNum 404), resp_headers = JObj [] \<rparr> \<and>
   checkForSpecificError example_cfg example_fs ''/users'' ''DELETE'' JNull (JObj []) (JObj []) =
     Inl SyntaxError \<and>
   getMockResponse example_cfg example_fs 0 0 ''/users'' ''DELETE'' JNull (JObj []) (JObj []) None =
     Inl SyntaxError"
proof -
  have a: "forced None = None" "errorRate example_cfg = 0"
    by (simp_all add: forced_def example_cfg_def)
  have b: "directLookup example_cfg example_fs ''/users'' ''DELETE'' = None"
    "findMockWithParams example_cfg example_fs (normalizedPath_of ''/users'') ''DELETE'' = Inr None"
    by (simp_all add: lookup_eval example_eval path_eval fs_eval)
  have c: "getErrorResponse example_cfg example_fs (ErrNum 404) ''/users'' ''DELETE'' =
     Inr \<lparr> resp_body = error_body ''Not Found'' ''Resource at DELETE /users was not found.'',
           resp_statusCode = JV (JNum 404), resp_headers = JObj [] \<rparr>"
    by (simp add: error_eval example_eval path_eval fs_eval)
  have d: "checkForSpecificError example_cfg example_fs ''/users'' ''DELETE'' JNull (JObj []) (JObj []) =
     Inl SyntaxError"
    by (simp add: scenario_eval example_eval path_eval fs_eval)
  then have "getMockResponse example_cfg example_fs 0 0 ''/users'' ''DELETE'' JNull (JObj []) (JObj []) None =
     Inl SyntaxError"
    by (simp add: getMockResponse_def a)
  with a b c d show ?thesis by blast
qed

section \<open>Synthesised errors and failures\<close>

lemma resolve_status_unknown:
  "parseInt s = None \<Longrightarrow> map_of errorMap (toLowerCase s) = None \<Longrightarrow>
   toLowerCase s \<noteq> ''constructor'' \<Longrightarrow> toLowerCase s \<noteq> ''__proto__'' \<Longrightarrow>
   resolve_status (ErrStr s) = Inr (Code 500)"
  by (simp add: resolve_status_def errorMap_get_def)

lemma template_response_no_template:
  "\<not> existsSync fs (path_join (errorDirectory cfg) (status_string statusCode @ ''.json'')) \<Longrightarrow>
   template_response cfg fs statusCode requestPath meth = default_response statusCode requestPath meth"
  by (simp add: template_response_def Let_def)

lemma default_response_unknown_code:
  "n \<notin> {400, 401, 403, 404, 409, 429, 500, 503} \<Longrightarrow>
   default_response (Code n) requestPath meth =
     \<lparr> resp_body = default_500, resp_statusCode = JV (JNum n), resp_headers = JObj [] \<rparr>"
  by (simp add: default_response_def defaultErrors_def)

text \<open>
  C7. The keyword \<^verbatim>\<open>constructor\<close> is not a key of the built-in name map, yet the status code
  of the synthesised error is not 500: the lookup \<^verbatim>\<open>errorMap[...]\<close> finds the inherited
  \<^verbatim>\<open>Object\<close> function, which is truthy, so \<^verbatim>\<open>|| 500\<close> does not apply. Only the body is
  the built-in one for 500.
\<close>

theorem unknown_keyword_on_prototype:
  "map_of errorMap ''constructor'' = None \<and>
   parseInt ''constructor'' = None \<and>
   getErrorResponse example_cfg example_fs (ErrStr ''constructor'') ''/users'' ''GET'' =
     Inr \<lparr> resp_body = default_500, resp_statusCode = Native ObjectConstructor, resp_headers = JObj [] \<rparr> \<and>
   getMockResponse example_cfg example_fs 0 0 ''/users'' ''GET'' JNull (JObj []) (JObj [])
       (Some (ErrStr ''constructor'')) =
     Inr \<lparr> resp_body = default_500, resp_statusCode = Native ObjectConstructor, resp_headers = JObj [] \<rparr>"
  by (simp add: getMockResponse_def forced_def error_eval example_eval path_eval fs_eval)

text \<open>
  C8. The scenario file \<^verbatim>\<open>users/errors/DELETE_broken.json\<close> of the example tree is not valid
  JSON. \<^verbatim>\<open>DELETE /users\<close> reads it in \<^verbatim>\<open>checkForSpecificError\<close>, outside any \<^verbatim>\<open>try\<close>, and
  the \<^verbatim>\<open>SyntaxError\<close> leaves \<^verbatim>\<open>getMockResponse\<close>: no response is returned. A rule file that
  is not valid JSON is, by contrast, answered with the synthesised 500.
\<close>

theorem malformed_scenario_file_raises:
  "getMockResponse example_cfg example_fs 0 0 ''/users'' ''DELETE'' JNull (JObj []) (JObj []) None =
     Inl SyntaxError \<and>
   loadMock example_cfg (Dir [(''srv'', Dir [(''mocks'', Dir [(''broken.json'', File None)])])])
       ''/srv/mocks/broken.json'' ''/broken'' ''GET'' JNull =
     Inr \<lparr> resp_body = default_500, resp_statusCode = JV (JNum 500), resp_headers = JObj [] \<rparr>"
  by (simp add: resolve_eval scenario_eval error_eval example_eval path_eval fs_eval)

end
